theory Spec2Isabelle
  imports Main "HOL-Library.Sublist"
begin

section \<open>Values of the host language\<close>

text \<open>
  The two edge functions (\<^verbatim>\<open>process-document/index.ts\<close> and
  \<^verbatim>\<open>send-chat-message/index.ts\<close>) handle JSON values. A JSON value is a datatype;
  a JavaScript value that may be \<^verbatim>\<open>undefined\<close> (a missing property, an unset
  environment variable) is an option of it. Numbers are integers here: a fraction or
  an exponent literal is outside the model.
\<close>

datatype json =
    JNull
  | JBool bool
  | JNum int
  | JStr string
  | JArr "json list"
  | JObj "(string \<times> json) list"

type_synonym jsval = "json option"

text \<open>Truthiness, as \<^verbatim>\<open>!x\<close> and \<^verbatim>\<open>if (x)\<close> test it.\<close>

fun truthy :: "jsval \<Rightarrow> bool" where
  "truthy None = False"
| "truthy (Some JNull) = False"
| "truthy (Some (JBool b)) = b"
| "truthy (Some (JNum n)) = (n \<noteq> 0)"
| "truthy (Some (JStr s)) = (s \<noteq> [])"
| "truthy (Some (JArr xs)) = True"
| "truthy (Some (JObj kvs)) = True"

text \<open>An environment variable is a string or unset; the empty string is falsy.\<close>

definition truthy_str :: "string option \<Rightarrow> bool" where
  "truthy_str v = (case v of None \<Rightarrow> False | Some s \<Rightarrow> s \<noteq> [])"

text \<open>Decimal rendering of numbers inside template literals.\<close>

definition digit_char :: "nat \<Rightarrow> char" where
  "digit_char d =
     (if d = 0 then CHR ''0'' else if d = 1 then CHR ''1'' else if d = 2 then CHR ''2''
      else if d = 3 then CHR ''3'' else if d = 4 then CHR ''4'' else if d = 5 then CHR ''5''
      else if d = 6 then CHR ''6'' else if d = 7 then CHR ''7'' else if d = 8 then CHR ''8''
      else CHR ''9'')"

fun show_nat :: "nat \<Rightarrow> string" where
  "show_nat n =
     (if n < 10 then [digit_char n] else show_nat (n div 10) @ [digit_char (n mod 10)])"

declare show_nat.simps [simp del]

definition show_int :: "int \<Rightarrow> string" where
  "show_int i = (if i < 0 then CHR ''-'' # show_nat (nat (- i)) else show_nat (nat i))"

fun join_comma :: "string list \<Rightarrow> string" where
  "join_comma [] = []"
| "join_comma [x] = x"
| "join_comma (x # y # ys) = x @ '','' @ join_comma (y # ys)"

text \<open>
  String coercion of a value inside a template literal: \<^verbatim>\<open>`${v}`\<close>. An array joins
  its elements with commas, \<^verbatim>\<open>null\<close> elements rendering as the empty string.
\<close>

fun js_string_of :: "json \<Rightarrow> string" where
  "js_string_of JNull = ''null''"
| "js_string_of (JBool b) = (if b then ''true'' else ''false'')"
| "js_string_of (JNum n) = show_int n"
| "js_string_of (JStr s) = s"
| "js_string_of (JArr xs) = join_comma (map (\<lambda>x. if x = JNull then [] else js_string_of x) xs)"
| "js_string_of (JObj kvs) = ''[object Object]''"

definition js_string :: "jsval \<Rightarrow> string" where
  "js_string v = (case v of None \<Rightarrow> ''undefined'' | Some j \<Rightarrow> js_string_of j)"

definition env_string :: "string option \<Rightarrow> string" where
  "env_string v = (case v of None \<Rightarrow> ''undefined'' | Some s \<Rightarrow> s)"

text \<open>
  Property access \<^verbatim>\<open>v.k\<close> on a value that is not \<^verbatim>\<open>null\<close>: an object yields the
  property (the list holds each own property once, as \<^verbatim>\<open>JSON.parse\<close> builds it),
  any other value has none of the properties read here.
\<close>

fun get_prop :: "json \<Rightarrow> string \<Rightarrow> jsval" where
  "get_prop (JObj kvs) k = map_of kvs k"
| "get_prop j k = None"

text \<open>
  An object literal handed to \<^verbatim>\<open>JSON.stringify\<close>: a property whose value is
  \<^verbatim>\<open>undefined\<close> is left out of the output.
\<close>

fun js_object :: "(string \<times> jsval) list \<Rightarrow> (string \<times> json) list" where
  "js_object [] = []"
| "js_object ((k, None) # kvs) = js_object kvs"
| "js_object ((k, Some v) # kvs) = (k, v) # js_object kvs"

section \<open>Exceptions, the platform and its effects\<close>

datatype exn = Error string | TypeError string | SyntaxError string

fun exn_message :: "exn \<Rightarrow> string" where
  "exn_message (Error m) = m"
| "exn_message (TypeError m) = m"
| "exn_message (SyntaxError m) = m"

text \<open>The response of the outbound call; \<open>up_body = None\<close> is a null body.\<close>

record upstream =
  up_status :: nat
  up_statusText :: string
  up_body :: "string option"

definition ok :: "upstream \<Rightarrow> bool" where
  "ok r = (200 \<le> up_status r \<and> up_status r \<le> 299)"

text \<open>
  What the handlers do not own: the process environment, the JSON parser, the URL
  constructor, the network, the store client and the clock. \<open>json_parse\<close> returns the
  parser's message on a syntax error; \<open>url_parse\<close> returns the exception of
  \<^verbatim>\<open>new URL(s)\<close>, if any; \<open>fetch\<close> returns the exception of a failed connection or
  the response; \<open>create_client\<close> returns the exception of \<^verbatim>\<open>createClient(url, key)\<close>,
  if any; \<open>store\<close> returns the exception of awaiting
  \<^verbatim>\<open>.from('sources').update(data).eq('id', id)\<close> on the client created with
  \<^verbatim>\<open>url\<close> and \<^verbatim>\<open>key\<close>, if any; \<open>clock n\<close> is the \<open>n\<close>-th reading of
  \<^verbatim>\<open>new Date().toISOString()\<close>.
\<close>

record world =
  env :: "string \<Rightarrow> string option"
  json_parse :: "string \<Rightarrow> string + json"
  url_parse :: "string \<Rightarrow> exn option"
  fetch :: "string \<Rightarrow> (string \<times> string) list \<Rightarrow> json \<Rightarrow> exn + upstream"
  create_client :: "string \<Rightarrow> string \<Rightarrow> exn option"
  store :: "string \<Rightarrow> string \<Rightarrow> jsval \<Rightarrow> json \<Rightarrow> exn option"
  clock :: "nat \<Rightarrow> string"

record request =
  rq_method :: string
  rq_body :: "string option"

text \<open>
  A response body is absent, a text, or the text \<^verbatim>\<open>JSON.stringify(j)\<close> of a JSON
  value, kept as the value.
\<close>

datatype body = BodyNull | BodyText string | BodyJson json

record response =
  resp_status :: nat
  resp_headers :: "(string \<times> string) list"
  resp_body :: body

text \<open>
  Observable effects, in order. A console call is recorded with its first argument
  (the label, or the whole message when there is one argument). \<open>StoreUpdate\<close> is the
  update that \<^verbatim>\<open>updateSourceStatus\<close> issues on a client it has created.
\<close>

datatype event =
    ConsoleLog string
  | ConsoleError string
  | FetchCall string "(string \<times> string) list" json
  | StoreUpdate string string jsval json

text \<open>
  The state of one invocation: the effects so far, the number of clock readings, and
  whether the body of the request and of the outbound response has been read. A body
  can be read once: reading it again, or cloning a request whose body was read, throws
  a \<^verbatim>\<open>TypeError\<close>.
\<close>

record state =
  trace :: "event list"
  ticks :: nat
  req_used :: bool
  up_used :: bool

definition init_state :: state where
  "init_state = \<lparr>trace = [], ticks = 0, req_used = False, up_used = False\<rparr>"

type_synonym 'a io = "state \<Rightarrow> (exn + 'a) \<times> state"

definition ret :: "'a \<Rightarrow> 'a io" where
  "ret x = (\<lambda>s. (Inr x, s))"

definition throw :: "exn \<Rightarrow> 'a io" where
  "throw e = (\<lambda>s. (Inl e, s))"

definition bind_io :: "'a io \<Rightarrow> ('a \<Rightarrow> 'b io) \<Rightarrow> 'b io" where
  "bind_io m f = (\<lambda>s. case m s of (Inl e, s') \<Rightarrow> (Inl e, s') | (Inr x, s') \<Rightarrow> f x s')"

definition try_catch :: "'a io \<Rightarrow> (exn \<Rightarrow> 'a io) \<Rightarrow> 'a io" where
  "try_catch m h = (\<lambda>s. case m s of (Inl e, s') \<Rightarrow> h e s' | (Inr x, s') \<Rightarrow> (Inr x, s'))"

definition emit :: "event \<Rightarrow> unit io" where
  "emit ev = (\<lambda>s. (Inr (), s\<lparr>trace := trace s @ [ev]\<rparr>))"

definition console_log :: "string \<Rightarrow> unit io" where
  "console_log label = emit (ConsoleLog label)"

definition console_error :: "string \<Rightarrow> unit io" where
  "console_error label = emit (ConsoleError label)"

definition now :: "world \<Rightarrow> string io" where
  "now w = (\<lambda>s. (Inr (clock w (ticks s)), s\<lparr>ticks := ticks s + 1\<rparr>))"

text \<open>
  The messages of the exceptions the runtime throws: reading a body that was read,
  cloning a request whose body was read, parsing the empty text, destructuring
  \<^verbatim>\<open>null\<close>.
\<close>

definition body_used_message :: string where
  "body_used_message = ''Body already consumed.''"

definition body_unusable_message :: string where
  "body_unusable_message = ''Body is unusable.''"

definition unexpected_end_message :: string where
  "unexpected_end_message = ''Unexpected end of JSON input''"

definition destructure_null_message :: string where
  "destructure_null_message = ''Cannot destructure property of null''"

text \<open>\<^verbatim>\<open>JSON.parse\<close> of a text; the empty text is never JSON.\<close>

definition parse_text :: "world \<Rightarrow> string \<Rightarrow> json io" where
  "parse_text w t =
     (if t = [] then throw (SyntaxError unexpected_end_message)
      else case json_parse w t of
             Inl m \<Rightarrow> throw (SyntaxError m)
           | Inr j \<Rightarrow> ret j)"

text \<open>\<^verbatim>\<open>await req.json()\<close>: reads the body, which marks it used, then parses.\<close>

definition req_json :: "world \<Rightarrow> request \<Rightarrow> json io" where
  "req_json w req =
     (case rq_body req of
        None \<Rightarrow> parse_text w []
      | Some t \<Rightarrow>
          (\<lambda>s. if req_used s then (Inl (TypeError body_used_message), s)
                else parse_text w t (s\<lparr>req_used := True\<rparr>)))"

text \<open>
  \<^verbatim>\<open>await req.clone().json()\<close>: \<^verbatim>\<open>clone\<close> throws when the body was read; the
  copy's body is read otherwise, the request's own stays as it is.
\<close>

definition req_clone_json :: "world \<Rightarrow> request \<Rightarrow> json io" where
  "req_clone_json w req =
     (case rq_body req of
        None \<Rightarrow> parse_text w []
      | Some t \<Rightarrow>
          (\<lambda>s. if req_used s then (Inl (TypeError body_unusable_message), s)
                else parse_text w t s))"

text \<open>\<^verbatim>\<open>await response.text()\<close> and \<^verbatim>\<open>await response.json()\<close> on the outbound response.\<close>

definition response_text :: "upstream \<Rightarrow> string io" where
  "response_text r =
     (case up_body r of
        None \<Rightarrow> ret []
      | Some t \<Rightarrow>
          (\<lambda>s. if up_used s then (Inl (TypeError body_used_message), s)
                else (Inr t, s\<lparr>up_used := True\<rparr>)))"

definition response_json :: "world \<Rightarrow> upstream \<Rightarrow> json io" where
  "response_json w r =
     (case up_body r of
        None \<Rightarrow> parse_text w []
      | Some t \<Rightarrow>
          (\<lambda>s. if up_used s then (Inl (TypeError body_used_message), s)
                else parse_text w t (s\<lparr>up_used := True\<rparr>)))"

text \<open>
  The pattern \<^verbatim>\<open>const { a, b, c } = v\<close>: throws on \<^verbatim>\<open>null\<close>, reads the properties
  otherwise.
\<close>

definition object_pattern :: "json \<Rightarrow> (string \<Rightarrow> jsval) io" where
  "object_pattern v =
     (if v = JNull then throw (TypeError destructure_null_message) else ret (get_prop v))"

text \<open>\<^verbatim>\<open>await fetch(url, {method: 'POST', headers, body: JSON.stringify(payload)})\<close>.\<close>

definition fetch_post :: "world \<Rightarrow> string \<Rightarrow> (string \<times> string) list \<Rightarrow> json \<Rightarrow> upstream io" where
  "fetch_post w url headers payload =
     bind_io (emit (FetchCall url headers payload)) (\<lambda>_.
       case fetch w url headers payload of
         Inl e \<Rightarrow> throw e
       | Inr r \<Rightarrow> ret r)"

section \<open>What both functions share\<close>

definition corsHeaders :: "(string \<times> string) list" where
  "corsHeaders =
     [(''Access-Control-Allow-Origin'', ''*''),
      (''Access-Control-Allow-Headers'', ''authorization, x-client-info, apikey, content-type'')]"

definition isValidUrl :: "world \<Rightarrow> string \<Rightarrow> bool" where
  "isValidUrl w string = (case url_parse w string of None \<Rightarrow> True | Some _ \<Rightarrow> False)"

text \<open>
  \<^verbatim>\<open>new Response(JSON.stringify(j), {status, headers: {...corsHeaders,
  'Content-Type': 'application/json'}})\<close>.
\<close>

definition json_response :: "nat \<Rightarrow> json \<Rightarrow> response" where
  "json_response st j =
     \<lparr>resp_status = st,
      resp_headers = corsHeaders @ [(''Content-Type'', ''application/json'')],
      resp_body = BodyJson j\<rparr>"

section \<open>The function \<^verbatim>\<open>process-document\<close>\<close>

text \<open>
  \<^verbatim>\<open>Deno.env.get(k) ?? ''\<close>, and
  \<^verbatim>\<open>updateSourceStatus(sourceId, status, errorMessage?)\<close>: the client is created
  first (lines 21 to 24), and when that throws no update is issued; the update carries
  the metadata only when the message is truthy (lines 26 to 29); the update is issued
  and awaited (lines 31 to 34).
\<close>

definition env_or_empty :: "world \<Rightarrow> string \<Rightarrow> string" where
  "env_or_empty w k = (case env w k of None \<Rightarrow> [] | Some v \<Rightarrow> v)"

definition updateSourceStatus :: "world \<Rightarrow> jsval \<Rightarrow> string \<Rightarrow> string option \<Rightarrow> unit io" where
  "updateSourceStatus w sourceId status errorMessage =
     (let supabaseUrl = env_or_empty w ''SUPABASE_URL'';
          supabaseKey = env_or_empty w ''SUPABASE_SERVICE_ROLE_KEY''
      in bind_io
           (case create_client w supabaseUrl supabaseKey of
              None \<Rightarrow> ret ()
            | Some e \<Rightarrow> throw e) (\<lambda>_.
         let updateData = JObj ((''processing_status'', JStr status) #
               (if truthy_str errorMessage
                then [(''metadata'', JObj [(''error'', JStr (env_string errorMessage))])]
                else []))
         in bind_io (emit (StoreUpdate supabaseUrl supabaseKey sourceId updateData)) (\<lambda>_.
              case store w supabaseUrl supabaseKey sourceId updateData of
                None \<Rightarrow> ret ()
              | Some e \<Rightarrow> throw e)))"

definition required_fields_response :: response where
  "required_fields_response =
     json_response 400 (JObj [(''error'', JStr ''sourceId, filePath, and sourceType are required'')])"

definition not_configured_message :: string where
  "not_configured_message =
     ''Document processing webhook URL not configured. Please set DOCUMENT_PROCESSING_WEBHOOK_URL in Supabase Edge Function secrets.''"

definition invalid_format_message :: "string \<Rightarrow> string" where
  "invalid_format_message webhookUrl =
     ''Invalid webhook URL format: '' @ webhookUrl @
     ''. Please ensure the URL includes the protocol (https://) and is properly formatted.''"

definition connect_failed_message :: "string \<Rightarrow> string" where
  "connect_failed_message webhookUrl =
     ''Failed to connect to webhook URL: '' @ webhookUrl @
     ''. Please verify the URL is correct and accessible.''"

definition webhook_returned_message :: "upstream \<Rightarrow> string \<Rightarrow> string" where
  "webhook_returned_message r errorText =
     ''Webhook returned '' @ show_nat (up_status r) @ '' '' @ up_statusText r @ '': '' @ errorText"

text \<open>
  The handler of \<^verbatim>\<open>process-document\<close>, in three parts that follow the source from the
  bottom up. Lines 131 to 156: the outbound call has answered.
\<close>

definition classify_response :: "world \<Rightarrow> jsval \<Rightarrow> string \<Rightarrow> upstream \<Rightarrow> response io" where
  "classify_response w sourceId webhookUrl response =
     (if \<not> ok response
      then
        bind_io (response_text response) (\<lambda>errorText.
        bind_io (console_error ''Webhook call failed:'') (\<lambda>_.
        let errorMessage = webhook_returned_message response errorText in
        bind_io (updateSourceStatus w sourceId ''failed'' (Some errorMessage)) (\<lambda>_.
        ret (json_response 500 (JObj
          [(''error'', JStr ''Document processing failed''),
           (''details'', JStr errorMessage),
           (''webhookUrl'', JStr webhookUrl),
           (''status'', JNum (int (up_status response))),
           (''statusText'', JStr (up_statusText response))])))))
      else
        bind_io (response_json w response) (\<lambda>result.
        bind_io (console_log ''Webhook response:'') (\<lambda>_.
        ret (json_response 200 (JObj
          [(''success'', JBool True),
           (''message'', JStr ''Document processing initiated''),
           (''result'', result)])))))"

text \<open>
  Lines 83 to 129, then the part above: the payload, the headers and the outbound call.
  The inner \<^verbatim>\<open>try\<close> around \<^verbatim>\<open>fetch\<close> either returns from the handler (\<open>Inl\<close>)
  or binds \<^verbatim>\<open>response\<close> (\<open>Inr\<close>).
\<close>

definition call_webhook ::
  "world \<Rightarrow> jsval \<Rightarrow> jsval \<Rightarrow> jsval \<Rightarrow> string \<Rightarrow> string option \<Rightarrow> response io" where
  "call_webhook w sourceId filePath sourceType webhookUrl authHeader =
     bind_io (console_log ''Calling external webhook:'') (\<lambda>_.
     let fileUrl = env_string (env w ''SUPABASE_URL'') @ ''/storage/v1/object/public/sources/''
                     @ js_string filePath;
         payload = JObj (js_object
           [(''source_id'', sourceId),
            (''file_url'', Some (JStr fileUrl)),
            (''file_path'', filePath),
            (''source_type'', sourceType),
            (''callback_url'', Some (JStr (env_string (env w ''SUPABASE_URL'')
                                             @ ''/functions/v1/process-document-callback'')))])
     in
     bind_io (console_log ''Webhook payload:'') (\<lambda>_.
     let headers = (''Content-Type'', ''application/json'') #
           (if truthy_str authHeader then [(''Authorization'', env_string authHeader)] else [])
     in
     bind_io
       (try_catch
          (bind_io (fetch_post w webhookUrl headers payload) (\<lambda>response.
           ret (Inr response)))
          (\<lambda>fetchError.
           bind_io (console_error ''Network error calling webhook:'') (\<lambda>_.
           let errorMessage = connect_failed_message webhookUrl in
           bind_io (updateSourceStatus w sourceId ''failed'' (Some errorMessage)) (\<lambda>_.
           ret (Inl (json_response 500 (JObj
             [(''error'', JStr ''Document processing failed''),
              (''details'', JStr errorMessage),
              (''webhookUrl'', JStr webhookUrl)])))))))
       (\<lambda>outcome.
        case outcome of
          Inl returned \<Rightarrow> ret returned
        | Inr response \<Rightarrow> classify_response w sourceId webhookUrl response)))"

text \<open>Lines 43 to 81, then the part above: the body of the \<^verbatim>\<open>try\<close> block.\<close>

definition process_document_try :: "world \<Rightarrow> request \<Rightarrow> response io" where
  "process_document_try w req =
     bind_io (req_json w req) (\<lambda>parsed.
     bind_io (object_pattern parsed) (\<lambda>props.
     let sourceId = props ''sourceId'';
         filePath = props ''filePath'';
         sourceType = props ''sourceType''
     in
     if \<not> truthy sourceId \<or> \<not> truthy filePath \<or> \<not> truthy sourceType
     then ret required_fields_response
     else
     bind_io (console_log ''Processing document:'') (\<lambda>_.
     let webhookUrl = env w ''DOCUMENT_PROCESSING_WEBHOOK_URL'';
         authHeader = env w ''NOTEBOOK_GENERATION_AUTH''
     in
     if \<not> truthy_str webhookUrl
     then
       bind_io (console_error ''Missing DOCUMENT_PROCESSING_WEBHOOK_URL environment variable'') (\<lambda>_.
       let errorMessage = not_configured_message in
       bind_io (updateSourceStatus w sourceId ''failed'' (Some errorMessage)) (\<lambda>_.
       ret (json_response 500 (JObj [(''error'', JStr errorMessage)]))))
     else if \<not> isValidUrl w (env_string webhookUrl)
     then
       bind_io (console_error ''Invalid DOCUMENT_PROCESSING_WEBHOOK_URL format:'') (\<lambda>_.
       let errorMessage = invalid_format_message (env_string webhookUrl) in
       bind_io (updateSourceStatus w sourceId ''failed'' (Some errorMessage)) (\<lambda>_.
       ret (json_response 500 (JObj [(''error'', JStr errorMessage)]))))
     else call_webhook w sourceId filePath sourceType (env_string webhookUrl) authHeader)))"

text \<open>The \<^verbatim>\<open>catch\<close> block: a best-effort status update, then the generic answer.\<close>

definition process_document_catch :: "world \<Rightarrow> request \<Rightarrow> exn \<Rightarrow> response io" where
  "process_document_catch w req error =
     bind_io (console_error ''Error in process-document function:'') (\<lambda>_.
     bind_io
       (try_catch
          (bind_io (req_clone_json w req) (\<lambda>parsed.
           bind_io (object_pattern parsed) (\<lambda>props.
           let sourceId = props ''sourceId'' in
           if truthy sourceId
           then updateSourceStatus w sourceId ''failed''
                  (Some ''Internal server error during document processing'')
           else ret ())))
          (\<lambda>parseError.
           console_error ''Could not parse request to update source status:''))
       (\<lambda>_.
        ret (json_response 500 (JObj
          [(''error'', JStr ''Internal server error''),
           (''details'', JStr (exn_message error))]))))"

definition process_document :: "world \<Rightarrow> request \<Rightarrow> response io" where
  "process_document w req =
     (if rq_method req = ''OPTIONS''
      then ret \<lparr>resp_status = 200, resp_headers = corsHeaders, resp_body = BodyText ''ok''\<rparr>
      else try_catch (process_document_try w req) (process_document_catch w req))"

section \<open>The function \<^verbatim>\<open>send-chat-message\<close>\<close>

definition chat_url_not_set_message :: string where
  "chat_url_not_set_message =
     ''NOTEBOOK_CHAT_URL environment variable not set. Please configure this secret in Supabase Edge Functions.''"

definition auth_not_set_message :: string where
  "auth_not_set_message =
     ''NOTEBOOK_GENERATION_AUTH environment variable not set. Please configure this secret in Supabase Edge Functions.''"

definition invalid_chat_url_message :: "string \<Rightarrow> string" where
  "invalid_chat_url_message webhookUrl =
     ''Invalid NOTEBOOK_CHAT_URL format: '' @ webhookUrl @
     ''. Please ensure the URL includes the protocol (https://) and is properly formatted.''"

definition network_error_message :: "string \<Rightarrow> exn \<Rightarrow> string" where
  "network_error_message webhookUrl fetchError =
     ''Failed to connect to webhook URL: '' @ webhookUrl @ ''. Network error: '' @ exn_message fetchError"

definition webhook_responded_message :: "upstream \<Rightarrow> string \<Rightarrow> string" where
  "webhook_responded_message r errorText =
     ''Webhook responded with status: '' @ show_nat (up_status r) @ '' '' @ up_statusText r @
     ''. Response: '' @ errorText"

text \<open>
  The handler of \<^verbatim>\<open>send-chat-message\<close>, again from the bottom up. Lines 82 to 113: the
  outbound call has answered.
\<close>

definition relay_reply :: "world \<Rightarrow> upstream \<Rightarrow> response io" where
  "relay_reply w webhookResponse =
     bind_io (console_log ''Webhook response status:'') (\<lambda>_.
     bind_io (console_log ''Webhook response headers:'') (\<lambda>_.
     if \<not> ok webhookResponse
     then
       bind_io (response_text webhookResponse) (\<lambda>errorText.
       let errorMessage = webhook_responded_message webhookResponse errorText in
       bind_io (console_error errorMessage) (\<lambda>_.
       bind_io (console_error ''Full webhook URL used:'') (\<lambda>_.
       throw (Error errorMessage))))
     else
     bind_io
       (try_catch
          (response_json w webhookResponse)
          (\<lambda>parseError.
           bind_io (response_text webhookResponse) (\<lambda>responseText.
           bind_io (console_log ''Webhook returned non-JSON response:'') (\<lambda>_.
           ret (JObj [(''message'', JStr ''Webhook processed successfully''),
                      (''response'', JStr responseText)])))))
       (\<lambda>webhookData.
     bind_io (console_log ''Webhook response data:'') (\<lambda>_.
     ret (json_response 200 (JObj [(''success'', JBool True), (''data'', webhookData)]))))))"

text \<open>Lines 52 to 80, then the part above: the payload and the outbound call.\<close>

definition send_to_webhook ::
  "world \<Rightarrow> jsval \<Rightarrow> jsval \<Rightarrow> jsval \<Rightarrow> string \<Rightarrow> string \<Rightarrow> response io" where
  "send_to_webhook w session_id message user_id webhookUrl authHeader =
     bind_io (console_log ''Sending to webhook URL:'') (\<lambda>_.
     bind_io (console_log ''Using auth header (first 10 chars):'') (\<lambda>_.
     bind_io (now w) (\<lambda>timestamp.
     let payload = JObj (js_object
           [(''session_id'', session_id),
            (''message'', message),
            (''user_id'', user_id),
            (''timestamp'', Some (JStr timestamp))])
     in
     bind_io (console_log ''Webhook payload:'') (\<lambda>_.
     bind_io
       (try_catch
          (fetch_post w webhookUrl
             [(''Content-Type'', ''application/json''), (''Authorization'', authHeader)]
             payload)
          (\<lambda>fetchError.
           let errorMessage = network_error_message webhookUrl fetchError in
           bind_io (console_error errorMessage) (\<lambda>_. throw (Error errorMessage))))
       (relay_reply w)))))"

text \<open>Lines 25 to 50, then the part above: the body of the \<^verbatim>\<open>try\<close> block.\<close>

definition send_chat_message_try :: "world \<Rightarrow> request \<Rightarrow> response io" where
  "send_chat_message_try w req =
     bind_io (req_json w req) (\<lambda>parsed.
     bind_io (object_pattern parsed) (\<lambda>props.
     let session_id = props ''session_id'';
         message = props ''message'';
         user_id = props ''user_id''
     in
     bind_io (console_log ''Received message:'') (\<lambda>_.
     let webhookUrl = env w ''NOTEBOOK_CHAT_URL'';
         authHeader = env w ''NOTEBOOK_GENERATION_AUTH''
     in
     if \<not> truthy_str webhookUrl
     then
       (let errorMessage = chat_url_not_set_message in
        bind_io (console_error errorMessage) (\<lambda>_. throw (Error errorMessage)))
     else if \<not> truthy_str authHeader
     then
       (let errorMessage = auth_not_set_message in
        bind_io (console_error errorMessage) (\<lambda>_. throw (Error errorMessage)))
     else if \<not> isValidUrl w (env_string webhookUrl)
     then
       (let errorMessage = invalid_chat_url_message (env_string webhookUrl) in
        bind_io (console_error errorMessage) (\<lambda>_. throw (Error errorMessage)))
     else send_to_webhook w session_id message user_id (env_string webhookUrl)
            (env_string authHeader))))"

definition send_chat_message_catch :: "world \<Rightarrow> exn \<Rightarrow> response io" where
  "send_chat_message_catch w error =
     bind_io (console_error ''Error in send-chat-message:'') (\<lambda>_.
     bind_io (now w) (\<lambda>timestamp.
     ret (json_response 500 (JObj (js_object
       [(''error'', Some (JStr (if exn_message error = [] then ''Failed to send message to webhook''
                                else exn_message error))),
        (''details'', Some (JObj (js_object
           [(''webhookUrl'', map_option JStr (env w ''NOTEBOOK_CHAT_URL'')),
            (''hasAuth'', Some (JBool (truthy_str (env w ''NOTEBOOK_GENERATION_AUTH'')))),
            (''timestamp'', Some (JStr timestamp))])))])))))"

definition send_chat_message :: "world \<Rightarrow> request \<Rightarrow> response io" where
  "send_chat_message w req =
     (if rq_method req = ''OPTIONS''
      then ret \<lparr>resp_status = 200, resp_headers = corsHeaders, resp_body = BodyNull\<rparr>
      else try_catch (send_chat_message_try w req) (send_chat_message_catch w))"

text \<open>\<^verbatim>\<open>serve\<close> runs a handler on a request, from a fresh invocation state.\<close>

definition serve :: "(request \<Rightarrow> response io) \<Rightarrow> request \<Rightarrow> (exn + response) \<times> state" where
  "serve handler req = handler req init_state"

section \<open>Vocabulary of the properties\<close>

text \<open>A body that holds the JSON text of the value \<open>j\<close>.\<close>

definition parses_to :: "world \<Rightarrow> string option \<Rightarrow> json \<Rightarrow> bool" where
  "parses_to w b j = (case b of None \<Rightarrow> False | Some t \<Rightarrow> t \<noteq> [] \<and> json_parse w t = Inr j)"

text \<open>The text of the outbound response's body, empty for a null body.\<close>

definition upstream_text :: "upstream \<Rightarrow> string" where
  "upstream_text r = (case up_body r of None \<Rightarrow> [] | Some t \<Rightarrow> t)"

fun is_fetch :: "event \<Rightarrow> bool" where
  "is_fetch (FetchCall url headers payload) = True"
| "is_fetch ev = False"

fun is_store :: "event \<Rightarrow> bool" where
  "is_store (StoreUpdate url key sourceId updateData) = True"
| "is_store ev = False"

definition fetch_calls :: "event list \<Rightarrow> event list" where
  "fetch_calls tr = filter is_fetch tr"

definition status_writes :: "event list \<Rightarrow> event list" where
  "status_writes tr = filter is_store tr"

text \<open>
  A request that gets past the OPTIONS branch and the required-field check of
  \<^verbatim>\<open>process-document\<close>: its body is the JSON text of \<open>j\<close> and the three fields are
  truthy.
\<close>

definition passes_field_check :: "world \<Rightarrow> request \<Rightarrow> json \<Rightarrow> bool" where
  "passes_field_check w req j =
     (rq_method req \<noteq> ''OPTIONS'' \<and> parses_to w (rq_body req) j \<and>
      truthy (get_prop j ''sourceId'') \<and> truthy (get_prop j ''filePath'') \<and>
      truthy (get_prop j ''sourceType''))"

text \<open>
  The update that marks a source \<^verbatim>\<open>failed\<close> with a message, the event of issuing it
  for a source, what creating the client gives, what the store answers to the update,
  and the two together: the outcome of \<^verbatim>\<open>updateSourceStatus\<close> and the updates it
  issues, none when the client cannot be created.
\<close>

definition failed_update :: "string \<Rightarrow> json" where
  "failed_update msg =
     JObj [(''processing_status'', JStr ''failed''), (''metadata'', JObj [(''error'', JStr msg)])]"

definition failed_write :: "world \<Rightarrow> jsval \<Rightarrow> string \<Rightarrow> event" where
  "failed_write w sourceId msg =
     StoreUpdate (env_or_empty w ''SUPABASE_URL'') (env_or_empty w ''SUPABASE_SERVICE_ROLE_KEY'')
       sourceId (failed_update msg)"

definition store_outcome :: "world \<Rightarrow> jsval \<Rightarrow> string \<Rightarrow> exn option" where
  "store_outcome w sourceId msg =
     store w (env_or_empty w ''SUPABASE_URL'') (env_or_empty w ''SUPABASE_SERVICE_ROLE_KEY'')
       sourceId (failed_update msg)"

definition client_outcome :: "world \<Rightarrow> exn option" where
  "client_outcome w =
     create_client w (env_or_empty w ''SUPABASE_URL'') (env_or_empty w ''SUPABASE_SERVICE_ROLE_KEY'')"

definition write_outcome :: "world \<Rightarrow> jsval \<Rightarrow> string \<Rightarrow> exn option" where
  "write_outcome w sourceId msg =
     (case client_outcome w of
        Some e \<Rightarrow> Some e
      | None \<Rightarrow> store_outcome w sourceId msg)"

definition issued_writes :: "world \<Rightarrow> jsval \<Rightarrow> string \<Rightarrow> event list" where
  "issued_writes w sourceId msg =
     (case client_outcome w of
        Some e \<Rightarrow> []
      | None \<Rightarrow> [failed_write w sourceId msg])"

text \<open>
  What the caller of \<^verbatim>\<open>process-document\<close> gets on a path that writes the failure
  and then answers \<open>resp\<close>: \<open>resp\<close> when the write returns, the answer of the catch
  block when it throws.
\<close>

definition answer_after_write :: "world \<Rightarrow> jsval \<Rightarrow> string \<Rightarrow> response \<Rightarrow> response" where
  "answer_after_write w sourceId msg resp =
     (case write_outcome w sourceId msg of
        None \<Rightarrow> resp
      | Some e \<Rightarrow> json_response 500 (JObj
          [(''error'', JStr ''Internal server error''), (''details'', JStr (exn_message e))]))"

text \<open>The variable \<open>var\<close> holds \<open>u\<close>, a non-empty string that the URL constructor accepts.\<close>

definition configured :: "world \<Rightarrow> string \<Rightarrow> string \<Rightarrow> bool" where
  "configured w var u = (env w var = Some u \<and> u \<noteq> [] \<and> isValidUrl w u)"

text \<open>
  A request that gets past the OPTIONS branch and the destructuring of
  \<^verbatim>\<open>send-chat-message\<close>, and a configuration that gets past its three checks.
\<close>

definition accepts_chat :: "world \<Rightarrow> request \<Rightarrow> json \<Rightarrow> bool" where
  "accepts_chat w req j =
     (rq_method req \<noteq> ''OPTIONS'' \<and> parses_to w (rq_body req) j \<and> j \<noteq> JNull)"

definition chat_configured :: "world \<Rightarrow> string \<Rightarrow> string \<Rightarrow> bool" where
  "chat_configured w u auth =
     (configured w ''NOTEBOOK_CHAT_URL'' u \<and>
      env w ''NOTEBOOK_GENERATION_AUTH'' = Some auth \<and> auth \<noteq> [])"

text \<open>A response body with nothing in it.\<close>

fun empty_body :: "body \<Rightarrow> bool" where
  "empty_body BodyNull = True"
| "empty_body (BodyText t) = (t = [])"
| "empty_body (BodyJson j) = False"

text \<open>A computation that leaves a request body that was read marked as read.\<close>

definition keeps_read :: "'a io \<Rightarrow> bool" where
  "keeps_read m = (\<forall>s a s'. m s = (a, s') \<longrightarrow> req_used s \<longrightarrow> req_used s')"

text \<open>The outbound call answers \<open>r\<close>, whatever it is sent.\<close>

definition replies :: "world \<Rightarrow> upstream \<Rightarrow> bool" where
  "replies w r = (\<forall>url headers payload. fetch w url headers payload = Inr r)"

section \<open>Concrete inputs\<close>

definition demo_env :: "string \<Rightarrow> string option" where
  "demo_env k =
     (if k = ''DOCUMENT_PROCESSING_WEBHOOK_URL'' then Some ''https://example.com/path''
      else if k = ''NOTEBOOK_CHAT_URL'' then Some ''https://example.com/chat''
      else if k = ''NOTEBOOK_GENERATION_AUTH'' then Some ''Bearer secret-token''
      else if k = ''SUPABASE_URL'' then Some ''https://proj.supabase.co''
      else if k = ''SUPABASE_SERVICE_ROLE_KEY'' then Some ''service-key''
      else None)"


definition demo_parse :: "string \<Rightarrow> string + json" where
  \<open>demo_parse t =
     (if t = ''{"ok":true}'' then Inr (JObj [(''ok'', JBool True)])
      else if t = ''{"sourceId":"s1","filePath":"a.pdf","sourceType":"pdf"}''
        then Inr (JObj [(''sourceId'', JStr ''s1''), (''filePath'', JStr ''a.pdf''),
                        (''sourceType'', JStr ''pdf'')])
      else if t = ''{"sourceId":"s1","filePath":"a.pdf"}''
        then Inr (JObj [(''sourceId'', JStr ''s1''), (''filePath'', JStr ''a.pdf'')])
      else if t = ''{"sourceId":"s1","filePath":"","sourceType":"pdf"}''
        then Inr (JObj [(''sourceId'', JStr ''s1''), (''filePath'', JStr []),
                        (''sourceType'', JStr ''pdf'')])
      else if t = ''{"session_id":"c1","message":"hi","user_id":"u1"}''
        then Inr (JObj [(''session_id'', JStr ''c1''), (''message'', JStr ''hi''),
                        (''user_id'', JStr ''u1'')])
      else Inl ''Unexpected token in JSON'')\<close>

definition demo_url_parse :: "string \<Rightarrow> exn option" where
  "demo_url_parse u =
     (if u = ''https://example.com/path'' \<or> u = ''https://example.com/chat'' then None
      else Some (TypeError ''Invalid URL''))"

definition reply_ok :: upstream where
  \<open>reply_ok = \<lparr>up_status = 200, up_statusText = ''OK'', up_body = Some ''{"ok":true}''\<rparr>\<close>

definition reply_done :: upstream where
  "reply_done = \<lparr>up_status = 200, up_statusText = ''OK'', up_body = Some ''done''\<rparr>"

definition reply_503 :: upstream where
  "reply_503 =
     \<lparr>up_status = 503, up_statusText = ''Service Unavailable'', up_body = Some ''unavailable''\<rparr>"

definition demo_clock :: "nat \<Rightarrow> string" where
  "demo_clock n = ''2024-01-01T00:00:0'' @ show_nat n @ ''.000Z''"

definition demo_world :: "upstream \<Rightarrow> world" where
  "demo_world reply =
     \<lparr>env = demo_env, json_parse = demo_parse, url_parse = demo_url_parse,
      fetch = (\<lambda>url headers payload. Inr reply),
      create_client = (\<lambda>url key. None),
      store = (\<lambda>url key sourceId updateData. None),
      clock = demo_clock\<rparr>"

text \<open>
  A store client that throws when it is created without a URL, and an environment
  without \<^verbatim>\<open>SUPABASE_URL\<close> and without the webhook URLs.
\<close>

definition strict_client :: "string \<Rightarrow> string \<Rightarrow> exn option" where
  "strict_client url key =
     (if url = [] then Some (Error ''supabaseUrl is required.'') else None)"

definition empty_env :: "string \<Rightarrow> string option" where
  "empty_env k = None"

definition doc_request :: request where
  \<open>doc_request =
     \<lparr>rq_method = ''POST'',
      rq_body = Some ''{"sourceId":"s1","filePath":"a.pdf","sourceType":"pdf"}''\<rparr>\<close>

definition doc_json :: json where
  "doc_json = JObj [(''sourceId'', JStr ''s1''), (''filePath'', JStr ''a.pdf''),
                    (''sourceType'', JStr ''pdf'')]"

definition doc_request_no_type :: request where
  \<open>doc_request_no_type =
     \<lparr>rq_method = ''POST'', rq_body = Some ''{"sourceId":"s1","filePath":"a.pdf"}''\<rparr>\<close>

definition doc_request_empty_path :: request where
  \<open>doc_request_empty_path =
     \<lparr>rq_method = ''POST'',
      rq_body = Some ''{"sourceId":"s1","filePath":"","sourceType":"pdf"}''\<rparr>\<close>

definition chat_request :: request where
  \<open>chat_request =
     \<lparr>rq_method = ''POST'',
      rq_body = Some ''{"session_id":"c1","message":"hi","user_id":"u1"}''\<rparr>\<close>

definition chat_json :: json where
  "chat_json = JObj [(''session_id'', JStr ''c1''), (''message'', JStr ''hi''),
                     (''user_id'', JStr ''u1'')]"

definition bad_request :: request where
  "bad_request = \<lparr>rq_method = ''POST'', rq_body = Some ''oops''\<rparr>"

definition options_request :: request where
  "options_request = \<lparr>rq_method = ''OPTIONS'', rq_body = None\<rparr>"

section \<open>Stepping through the handlers\<close>

subsection \<open>Reads and writes\<close>

lemmas io_defs = ret_def throw_def bind_io_def try_catch_def emit_def console_log_def
  console_error_def now_def

lemma req_json_parses:
  "parses_to w (rq_body req) j \<Longrightarrow> \<not> req_used s \<Longrightarrow>
   req_json w req s = (Inr j, s\<lparr>req_used := True\<rparr>)"
  by (auto simp: parses_to_def req_json_def parse_text_def io_defs split: option.splits)

lemma object_pattern_apply:
  "j \<noteq> JNull \<Longrightarrow> object_pattern j s = (Inr (get_prop j), s)"
  by (simp add: object_pattern_def io_defs)

lemma update_apply:
  "msg \<noteq> [] \<Longrightarrow> updateSourceStatus w sid ''failed'' (Some msg) s =
     (case write_outcome w sid msg of None \<Rightarrow> Inr () | Some e \<Rightarrow> Inl e,
      s\<lparr>trace := trace s @ issued_writes w sid msg\<rparr>)"
  by (simp add: updateSourceStatus_def Let_def io_defs truthy_str_def env_string_def
      write_outcome_def issued_writes_def client_outcome_def store_outcome_def failed_write_def
      failed_update_def split: option.splits)

lemma filter_issued_writes:
  "filter is_store (issued_writes w sid msg) = issued_writes w sid msg"
  "filter is_fetch (issued_writes w sid msg) = []"
  by (simp_all add: issued_writes_def failed_write_def split: option.splits)


lemma issued_writes_no_client:
  "client_outcome w = Some e \<Longrightarrow> issued_writes w sid msg = []"
  by (simp add: issued_writes_def)

lemma not_configured_message_nonempty: "not_configured_message \<noteq> []"
  by (simp add: not_configured_message_def)



lemma response_json_parses:
  "parses_to w (up_body r) j \<Longrightarrow> \<not> up_used s \<Longrightarrow>
   response_json w r s = (Inr j, s\<lparr>up_used := True\<rparr>)"
  by (auto simp: parses_to_def response_json_def parse_text_def io_defs split: option.splits)

subsection \<open>The function \<^verbatim>\<open>process-document\<close>, stage by stage\<close>

lemma required_fields_path:
  assumes "rq_method req \<noteq> ''OPTIONS''" and "parses_to w (rq_body req) j" and "j \<noteq> JNull"
    and "\<not> truthy (get_prop j ''sourceId'') \<or> \<not> truthy (get_prop j ''filePath'')
         \<or> \<not> truthy (get_prop j ''sourceType'')"
  shows "serve (process_document w) req = (Inr required_fields_response, init_state\<lparr>req_used := True\<rparr>)"
proof -
  have u: "\<not> req_used init_state" by (simp add: init_state_def)
  have "process_document_try w req init_state
          = (Inr required_fields_response, init_state\<lparr>req_used := True\<rparr>)"
    using assms(4)
    by (simp add: process_document_try_def bind_io_def req_json_parses [OF assms(2) u]
        object_pattern_apply [OF assms(3)] Let_def ret_def)
  then show ?thesis
    using assms(1) by (simp add: serve_def process_document_def try_catch_def)
qed

text \<open>After the request body was read, the recovery step of the catch block only logs.\<close>

lemma catch_after_read:
  assumes "rq_body req = Some t" and "req_used s"
  shows "process_document_catch w req e s =
     (Inr (json_response 500 (JObj [(''error'', JStr ''Internal server error''), (''details'', JStr (exn_message e))])),
      s\<lparr>trace := trace s @ [ConsoleError ''Error in process-document function:'',
          ConsoleError ''Could not parse request to update source status:'']\<rparr>)"
  using assms by (simp add: process_document_catch_def req_clone_json_def io_defs)

lemma passes_field_checkD:
  assumes "passes_field_check w req j"
  shows "rq_method req \<noteq> ''OPTIONS''" and "parses_to w (rq_body req) j" and "j \<noteq> JNull"
    and "truthy (get_prop j ''sourceId'')" and "truthy (get_prop j ''filePath'')"
    and "truthy (get_prop j ''sourceType'')" and "\<exists>t. rq_body req = Some t"
  using assms by (auto simp: passes_field_check_def parses_to_def split: option.splits)

lemma try_not_configured:
  assumes "passes_field_check w req j" and "\<not> truthy_str (env w ''DOCUMENT_PROCESSING_WEBHOOK_URL'')"
  shows "process_document_try w req init_state =
     (case write_outcome w (get_prop j ''sourceId'') not_configured_message of
        None \<Rightarrow> Inr (json_response 500 (JObj [(''error'', JStr not_configured_message)]))
      | Some e \<Rightarrow> Inl e,
      init_state\<lparr>req_used := True, trace :=
        [ConsoleLog ''Processing document:'',
         ConsoleError ''Missing DOCUMENT_PROCESSING_WEBHOOK_URL environment variable'']
        @ issued_writes w (get_prop j ''sourceId'') not_configured_message\<rparr>)"
proof -
  have u: "\<not> req_used init_state" by (simp add: init_state_def)
  note d = passes_field_checkD [OF assms(1)]
  show ?thesis
    using d(4-6) assms(2)
    apply (simp add: process_document_try_def bind_io_def [of "req_json w req"] req_json_parses [OF d(2) u])
    apply (simp add: bind_io_def [of "object_pattern j"] object_pattern_apply [OF d(3)] Let_def)
    apply (simp add: bind_io_def update_apply [OF not_configured_message_nonempty]
        console_log_def console_error_def emit_def ret_def split: option.splits)
    apply (simp add: init_state_def)
    done
qed

lemma try_configured:
  assumes "passes_field_check w req j" and "configured w ''DOCUMENT_PROCESSING_WEBHOOK_URL'' u"
  shows "process_document_try w req init_state =
     call_webhook w (get_prop j ''sourceId'') (get_prop j ''filePath'') (get_prop j ''sourceType'')
       u (env w ''NOTEBOOK_GENERATION_AUTH'')
       (init_state\<lparr>req_used := True, trace := [ConsoleLog ''Processing document:'']\<rparr>)"
proof -
  have u: "\<not> req_used init_state" by (simp add: init_state_def)
  note d = passes_field_checkD [OF assms(1)]
  have c: "env w ''DOCUMENT_PROCESSING_WEBHOOK_URL'' = Some u" "u \<noteq> []" "isValidUrl w u"
    using assms(2) by (auto simp: configured_def)
  show ?thesis
    using d(4-6) c
    apply (simp add: process_document_try_def bind_io_def [of "req_json w req"] req_json_parses [OF d(2) u])
    apply (simp add: bind_io_def [of "object_pattern j"] object_pattern_apply [OF d(3)] Let_def)
    apply (simp add: bind_io_def console_log_def emit_def truthy_str_def env_string_def)
    apply (simp add: init_state_def)
    done
qed

lemma call_webhook_replies:
  assumes "replies w r"
  shows "\<exists>headers payload. call_webhook w sid fp st u auth s =
           classify_response w sid u r
             (s\<lparr>trace := trace s @ [ConsoleLog ''Calling external webhook:'',
                  ConsoleLog ''Webhook payload:'', FetchCall u headers payload]\<rparr>)"
  using assms
  by (cases "truthy_str auth") (simp_all add: call_webhook_def replies_def fetch_post_def io_defs Let_def, blast+)


lemma classify_ok:
  assumes "ok r" and "parses_to w (up_body r) j" and "\<not> up_used s"
  shows "classify_response w sid u r s =
     (Inr (json_response 200 (JObj
          [(''success'', JBool True),
           (''message'', JStr ''Document processing initiated''),
           (''result'', j)])),
      s\<lparr>up_used := True, trace := trace s @ [ConsoleLog ''Webhook response:'']\<rparr>)"
  using assms
  by (simp add: classify_response_def bind_io_def response_json_parses
      console_log_def emit_def ret_def)

subsection \<open>The function \<^verbatim>\<open>send-chat-message\<close>, stage by stage\<close>

lemma chat_catch_apply:
  "send_chat_message_catch w e s =
     (Inr (json_response 500 (JObj
        [(''error'', JStr (if exn_message e = [] then ''Failed to send message to webhook''
                           else exn_message e)),
         (''details'', JObj (js_object
            [(''webhookUrl'', map_option JStr (env w ''NOTEBOOK_CHAT_URL'')),
             (''hasAuth'', Some (JBool (truthy_str (env w ''NOTEBOOK_GENERATION_AUTH'')))),
             (''timestamp'', Some (JStr (clock w (ticks s))))]))])),
      s\<lparr>trace := trace s @ [ConsoleError ''Error in send-chat-message:''],
        ticks := ticks s + 1\<rparr>)"
  by (simp add: send_chat_message_catch_def io_defs)

lemma relay_reply_status:
  assumes "relay_reply w r s = (Inr resp, s')"
  shows "resp_status resp = 200"
  using assms
  by (auto simp: relay_reply_def io_defs json_response_def Let_def
      split: if_splits prod.splits sum.splits)

lemma send_to_webhook_status:
  assumes "send_to_webhook w sid msg uid u auth s = (Inr resp, s')"
  shows "resp_status resp = 200"
  using assms
  by (auto simp: send_to_webhook_def io_defs Let_def
      split: if_splits prod.splits sum.splits dest: relay_reply_status)

lemma chat_try_status:
  assumes "send_chat_message_try w req s = (Inr resp, s')"
  shows "resp_status resp = 200"
  using assms
  by (auto simp: send_chat_message_try_def io_defs Let_def
      split: if_splits prod.splits sum.splits dest: send_to_webhook_status)


lemma chat_try_configured:
  assumes "accepts_chat w req j" and "chat_configured w u auth"
  shows "send_chat_message_try w req init_state =
     send_to_webhook w (get_prop j ''session_id'') (get_prop j ''message'') (get_prop j ''user_id'')
       u auth (init_state\<lparr>req_used := True, trace := [ConsoleLog ''Received message:'']\<rparr>)"
proof -
  have u: "\<not> req_used init_state" by (simp add: init_state_def)
  have a: "parses_to w (rq_body req) j" "j \<noteq> JNull"
    using assms(1) by (auto simp: accepts_chat_def)
  have c: "env w ''NOTEBOOK_CHAT_URL'' = Some u" "u \<noteq> []" "isValidUrl w u"
    "env w ''NOTEBOOK_GENERATION_AUTH'' = Some auth" "auth \<noteq> []"
    using assms(2) by (auto simp: chat_configured_def configured_def)
  show ?thesis
    using c
    apply (simp add: send_chat_message_try_def bind_io_def [of "req_json w req"] req_json_parses [OF a(1) u])
    apply (simp add: bind_io_def [of "object_pattern j"] object_pattern_apply [OF a(2)] Let_def)
    apply (simp add: bind_io_def console_log_def emit_def truthy_str_def env_string_def)
    apply (simp add: init_state_def)
    done
qed

lemma send_to_webhook_replies:
  assumes "replies w r"
  shows "send_to_webhook w sid msg uid u auth s =
           relay_reply w r
             (s\<lparr>ticks := ticks s + 1,
                trace := trace s @ [ConsoleLog ''Sending to webhook URL:'',
                  ConsoleLog ''Using auth header (first 10 chars):'',
                  ConsoleLog ''Webhook payload:'',
                  FetchCall u [(''Content-Type'', ''application/json''), (''Authorization'', auth)]
                    (JObj (js_object [(''session_id'', sid), (''message'', msg), (''user_id'', uid),
                       (''timestamp'', Some (JStr (clock w (ticks s))))]))]\<rparr>)"
  using assms
  by (simp add: send_to_webhook_def replies_def fetch_post_def io_defs Let_def)

lemma relay_not_ok:
  assumes "\<not> ok r" and "\<not> up_used s"
  shows "relay_reply w r s =
     (Inl (Error (webhook_responded_message r (upstream_text r))),
      s\<lparr>up_used := (up_body r \<noteq> None),
        trace := trace s @ [ConsoleLog ''Webhook response status:'',
          ConsoleLog ''Webhook response headers:'',
          ConsoleError (webhook_responded_message r (upstream_text r)),
          ConsoleError ''Full webhook URL used:'']\<rparr>)"
  using assms
  by (simp add: relay_reply_def io_defs response_text_def upstream_text_def Let_def split: option.splits)

lemma relay_ok_json:
  assumes "ok r" and "parses_to w (up_body r) j" and "\<not> up_used s"
  shows "relay_reply w r s =
     (Inr (json_response 200 (JObj [(''success'', JBool True), (''data'', j)])),
      s\<lparr>up_used := True,
        trace := trace s @ [ConsoleLog ''Webhook response status:'',
          ConsoleLog ''Webhook response headers:'', ConsoleLog ''Webhook response data:'']\<rparr>)"
  using assms
  by (auto simp: relay_reply_def io_defs response_json_def parse_text_def parses_to_def Let_def
      split: option.splits)

text \<open>
  A body that is there and is not JSON: \<^verbatim>\<open>json()\<close> has read it, so \<^verbatim>\<open>text()\<close> in
  the fallback throws, and the handler's catch block gets a \<^verbatim>\<open>TypeError\<close>.
\<close>

lemma relay_ok_not_json:
  assumes "ok r" and "up_body r = Some t" and "t = [] \<or> (\<exists>m. json_parse w t = Inl m)"
    and "\<not> up_used s"
  shows "relay_reply w r s =
     (Inl (TypeError body_used_message),
      s\<lparr>up_used := True,
        trace := trace s @ [ConsoleLog ''Webhook response status:'',
          ConsoleLog ''Webhook response headers:'']\<rparr>)"
  using assms
  by (auto simp: relay_reply_def io_defs response_json_def response_text_def parse_text_def Let_def)

text \<open>A null body that is not JSON either: the fallback works.\<close>

lemma relay_ok_null_body:
  assumes "ok r" and "up_body r = None"
  shows "relay_reply w r s =
     (Inr (json_response 200 (JObj [(''success'', JBool True),
        (''data'', JObj [(''message'', JStr ''Webhook processed successfully''),
                         (''response'', JStr [])])])),
      s\<lparr>trace := trace s @ [ConsoleLog ''Webhook response status:'',
          ConsoleLog ''Webhook response headers:'',
          ConsoleLog ''Webhook returned non-JSON response:'',
          ConsoleLog ''Webhook response data:'']\<rparr>)"
  using assms
  by (auto simp: relay_reply_def io_defs response_json_def response_text_def parse_text_def Let_def)

subsection \<open>Entering the handlers\<close>

lemma serve_process_document:
  "rq_method req \<noteq> ''OPTIONS'' \<Longrightarrow>
   serve (process_document w) req =
     (case process_document_try w req init_state of
        (Inl e, s) \<Rightarrow> process_document_catch w req e s
      | (Inr r, s) \<Rightarrow> (Inr r, s))"
  by (simp add: serve_def process_document_def try_catch_def)

lemma serve_send_chat_message:
  "rq_method req \<noteq> ''OPTIONS'' \<Longrightarrow>
   serve (send_chat_message w) req =
     (case send_chat_message_try w req init_state of
        (Inl e, s) \<Rightarrow> send_chat_message_catch w e s
      | (Inr r, s) \<Rightarrow> (Inr r, s))"
  by (simp add: serve_def send_chat_message_def try_catch_def)

lemma init_state_fresh: "\<not> req_used init_state" "\<not> up_used init_state" "trace init_state = []"
  by (simp_all add: init_state_def)

subsection \<open>Whole paths\<close>

lemma doc_unset_path:
  assumes "passes_field_check w req j"
    and "\<not> truthy_str (env w ''DOCUMENT_PROCESSING_WEBHOOK_URL'')"
  shows "\<exists>s. serve (process_document w) req =
           (Inr (answer_after_write w (get_prop j ''sourceId'') not_configured_message
                  (json_response 500 (JObj [(''error'', JStr not_configured_message)]))), s) \<and>
         status_writes (trace s) = issued_writes w (get_prop j ''sourceId'') not_configured_message \<and>
         fetch_calls (trace s) = []"
proof -
  note d = passes_field_checkD [OF assms(1)]
  from d(7) obtain t where t: "rq_body req = Some t" ..
  note run = serve_process_document [OF d(1), of w, unfolded try_not_configured [OF assms]]
  show ?thesis
  proof (cases "write_outcome w (get_prop j ''sourceId'') not_configured_message")
    case None
    then show ?thesis
      by (simp add: run answer_after_write_def init_state_def status_writes_def fetch_calls_def
          filter_issued_writes)
  next
    case (Some e)
    then show ?thesis
      by (simp add: run catch_after_read [OF t] answer_after_write_def init_state_def
          status_writes_def fetch_calls_def filter_issued_writes)
  qed
qed

lemma doc_reply_path:
  assumes "passes_field_check w req j" and "configured w ''DOCUMENT_PROCESSING_WEBHOOK_URL'' u"
    and "replies w r"
  shows "\<exists>s0. length (fetch_calls (trace s0)) = 1 \<and> status_writes (trace s0) = [] \<and>
           req_used s0 \<and> \<not> up_used s0 \<and>
           serve (process_document w) req =
             (case classify_response w (get_prop j ''sourceId'') u r s0 of
                (Inl e, s) \<Rightarrow> process_document_catch w req e s
              | (Inr resp, s) \<Rightarrow> (Inr resp, s))"
proof -
  note d = passes_field_checkD [OF assms(1)]
  from call_webhook_replies [OF assms(3)]
  obtain headers payload where
    "call_webhook w (get_prop j ''sourceId'') (get_prop j ''filePath'') (get_prop j ''sourceType'')
       u (env w ''NOTEBOOK_GENERATION_AUTH'')
       (init_state\<lparr>req_used := True, trace := [ConsoleLog ''Processing document:'']\<rparr>) =
     classify_response w (get_prop j ''sourceId'') u r
       ((init_state\<lparr>req_used := True, trace := [ConsoleLog ''Processing document:'']\<rparr>)
          \<lparr>trace := trace (init_state\<lparr>req_used := True, trace := [ConsoleLog ''Processing document:'']\<rparr>)
             @ [ConsoleLog ''Calling external webhook:'', ConsoleLog ''Webhook payload:'',
                FetchCall u headers payload]\<rparr>)"
    by blast
  then have "serve (process_document w) req =
      (case classify_response w (get_prop j ''sourceId'') u r
          ((init_state\<lparr>req_used := True, trace := [ConsoleLog ''Processing document:'']\<rparr>)
          \<lparr>trace := trace (init_state\<lparr>req_used := True, trace := [ConsoleLog ''Processing document:'']\<rparr>)
             @ [ConsoleLog ''Calling external webhook:'', ConsoleLog ''Webhook payload:'',
                FetchCall u headers payload]\<rparr>) of
                (Inl e, s) \<Rightarrow> process_document_catch w req e s
              | (Inr resp, s) \<Rightarrow> (Inr resp, s))"
    by (simp only: serve_process_document [OF d(1)] try_configured [OF assms(1,2)])
  then show ?thesis
    by (intro exI [of _ "(init_state\<lparr>req_used := True, trace := [ConsoleLog ''Processing document:'']\<rparr>)
          \<lparr>trace := trace (init_state\<lparr>req_used := True, trace := [ConsoleLog ''Processing document:'']\<rparr>)
             @ [ConsoleLog ''Calling external webhook:'', ConsoleLog ''Webhook payload:'',
                FetchCall u headers payload]\<rparr>"])
      (simp add: init_state_def status_writes_def fetch_calls_def)
qed


lemma doc_ok_path:
  assumes "passes_field_check w req j" and "configured w ''DOCUMENT_PROCESSING_WEBHOOK_URL'' u"
    and "replies w r" and "ok r" and "parses_to w (up_body r) result"
  shows "\<exists>s. serve (process_document w) req =
           (Inr (json_response 200 (JObj
              [(''success'', JBool True),
               (''message'', JStr ''Document processing initiated''),
               (''result'', result)])), s) \<and>
         status_writes (trace s) = [] \<and> length (fetch_calls (trace s)) = 1"
proof -
  from doc_reply_path [OF assms(1-3)]
  obtain s0 where s0: "length (fetch_calls (trace s0)) = 1" "status_writes (trace s0) = []"
      "req_used s0" "\<not> up_used s0"
    and run: "serve (process_document w) req =
             (case classify_response w (get_prop j ''sourceId'') u r s0 of
                (Inl e, s) \<Rightarrow> process_document_catch w req e s
              | (Inr resp, s) \<Rightarrow> (Inr resp, s))"
    by blast
  show ?thesis
    using s0
    by (simp add: run classify_ok [OF assms(4,5) s0(4)] status_writes_def fetch_calls_def)
qed

lemma webhook_responded_message_nonempty: "webhook_responded_message r t \<noteq> []"
  by (simp add: webhook_responded_message_def)

lemma chat_total:
  "\<exists>resp s. serve (send_chat_message w) req = (Inr resp, s)"
proof (cases "rq_method req = ''OPTIONS''")
  case True
  then show ?thesis by (simp add: serve_def send_chat_message_def ret_def)
next
  case False
  show ?thesis
  proof (cases "send_chat_message_try w req init_state")
    case (Pair a s1)
    then show ?thesis
      by (cases a) (simp_all add: serve_send_chat_message [OF False] chat_catch_apply)
  qed
qed


lemma chat_reply_path:
  assumes "accepts_chat w req j" and "chat_configured w u auth" and "replies w r"
  shows "\<exists>s0. length (fetch_calls (trace s0)) = 1 \<and> \<not> up_used s0 \<and> ticks s0 = 1 \<and>
           serve (send_chat_message w) req =
             (case relay_reply w r s0 of
                (Inl e, s) \<Rightarrow> send_chat_message_catch w e s
              | (Inr resp, s) \<Rightarrow> (Inr resp, s))"
proof -
  let ?s1 = "init_state\<lparr>req_used := True, trace := [ConsoleLog ''Received message:'']\<rparr>"
  let ?s0 = "?s1\<lparr>ticks := ticks ?s1 + 1,
                trace := trace ?s1 @ [ConsoleLog ''Sending to webhook URL:'',
                  ConsoleLog ''Using auth header (first 10 chars):'',
                  ConsoleLog ''Webhook payload:'',
                  FetchCall u [(''Content-Type'', ''application/json''), (''Authorization'', auth)]
                    (JObj (js_object [(''session_id'', get_prop j ''session_id''),
                       (''message'', get_prop j ''message''), (''user_id'', get_prop j ''user_id''),
                       (''timestamp'', Some (JStr (clock w (ticks ?s1))))]))]\<rparr>"
  have m: "rq_method req \<noteq> ''OPTIONS''"
    using assms(1) by (simp add: accepts_chat_def)
  have "serve (send_chat_message w) req =
             (case relay_reply w r ?s0 of
                (Inl e, s) \<Rightarrow> send_chat_message_catch w e s
              | (Inr resp, s) \<Rightarrow> (Inr resp, s))"
    by (simp only: serve_send_chat_message [OF m] chat_try_configured [OF assms(1,2)]
        send_to_webhook_replies [OF assms(3)])
  then show ?thesis
    by (intro exI [of _ ?s0]) (simp add: init_state_def fetch_calls_def)
qed

lemma chat_not_ok_path:
  assumes "accepts_chat w req j" and "chat_configured w u auth" and "replies w r" and "\<not> ok r"
  shows "\<exists>s. serve (send_chat_message w) req =
           (Inr (json_response 500 (JObj
              [(''error'', JStr (webhook_responded_message r (upstream_text r))),
               (''details'', JObj
                  [(''webhookUrl'', JStr u), (''hasAuth'', JBool True),
                   (''timestamp'', JStr (clock w 1))])])), s) \<and>
         length (fetch_calls (trace s)) = 1"
proof -
  have c: "env w ''NOTEBOOK_CHAT_URL'' = Some u" "truthy_str (env w ''NOTEBOOK_GENERATION_AUTH'')"
    using assms(2) by (auto simp: chat_configured_def configured_def truthy_str_def)
  from chat_reply_path [OF assms(1-3)]
  obtain s0 where s0: "length (fetch_calls (trace s0)) = 1" "\<not> up_used s0" "ticks s0 = 1"
    and run: "serve (send_chat_message w) req =
             (case relay_reply w r s0 of
                (Inl e, s) \<Rightarrow> send_chat_message_catch w e s
              | (Inr resp, s) \<Rightarrow> (Inr resp, s))"
    by blast
  show ?thesis
    using s0 c
    by (simp add: run relay_not_ok [OF assms(4) s0(2)] chat_catch_apply
        webhook_responded_message_nonempty fetch_calls_def)
qed

lemma chat_ok_path:
  assumes "accepts_chat w req j" and "chat_configured w u auth" and "replies w r" and "ok r"
    and "parses_to w (up_body r) result"
  shows "\<exists>s. serve (send_chat_message w) req =
           (Inr (json_response 200 (JObj [(''success'', JBool True), (''data'', result)])), s) \<and>
         length (fetch_calls (trace s)) = 1"
proof -
  from chat_reply_path [OF assms(1-3)]
  obtain s0 where s0: "length (fetch_calls (trace s0)) = 1" "\<not> up_used s0" "ticks s0 = 1"
    and run: "serve (send_chat_message w) req =
             (case relay_reply w r s0 of
                (Inl e, s) \<Rightarrow> send_chat_message_catch w e s
              | (Inr resp, s) \<Rightarrow> (Inr resp, s))"
    by blast
  show ?thesis
    using s0
    by (simp add: run relay_ok_json [OF assms(4,5) s0(2)] fetch_calls_def)
qed

lemma chat_not_json_path:
  assumes "accepts_chat w req j" and "chat_configured w u auth" and "replies w r" and "ok r"
    and "up_body r = Some t" and "t = [] \<or> (\<exists>m. json_parse w t = Inl m)"
  shows "\<exists>s. serve (send_chat_message w) req =
           (Inr (json_response 500 (JObj
              [(''error'', JStr body_used_message),
               (''details'', JObj
                  [(''webhookUrl'', JStr u), (''hasAuth'', JBool True),
                   (''timestamp'', JStr (clock w 1))])])), s)"
proof -
  have c: "env w ''NOTEBOOK_CHAT_URL'' = Some u" "truthy_str (env w ''NOTEBOOK_GENERATION_AUTH'')"
    using assms(2) by (auto simp: chat_configured_def configured_def truthy_str_def)
  from chat_reply_path [OF assms(1-3)]
  obtain s0 where s0: "length (fetch_calls (trace s0)) = 1" "\<not> up_used s0" "ticks s0 = 1"
    and run: "serve (send_chat_message w) req =
             (case relay_reply w r s0 of
                (Inl e, s) \<Rightarrow> send_chat_message_catch w e s
              | (Inr resp, s) \<Rightarrow> (Inr resp, s))"
    by blast
  show ?thesis
    using s0 c
    by (simp add: run relay_ok_not_json [OF assms(4,5,6) s0(2)] chat_catch_apply
        body_used_message_def)
qed

subsection \<open>The request body stays read\<close>

lemma keeps_read_ret: "keeps_read (ret x)"
  and keeps_read_throw: "keeps_read (throw e)"
  and keeps_read_emit: "keeps_read (emit ev)"
  and keeps_read_console_log: "keeps_read (console_log l)"
  and keeps_read_console_error: "keeps_read (console_error l)"
  by (auto simp: keeps_read_def io_defs)

lemma keeps_read_bind:
  assumes "keeps_read m" and "\<And>x. keeps_read (f x)"
  shows "keeps_read (bind_io m f)"
  unfolding keeps_read_def bind_io_def
proof (intro allI impI)
  fix s a s'
  assume run: "(case m s of (Inl e, s') \<Rightarrow> (Inl e, s') | (Inr x, s') \<Rightarrow> f x s') = (a, s')"
    and used: "req_used s"
  obtain b s1 where m: "m s = (b, s1)" by (cases "m s")
  with assms(1) used have s1: "req_used s1"
    by (auto simp: keeps_read_def)
  show "req_used s'"
  proof (cases b)
    case (Inl e)
    with run m s1 show ?thesis by simp
  next
    case (Inr x)
    with run m have "f x s1 = (a, s')" by simp
    with assms(2) [of x] s1 show ?thesis
      by (auto simp: keeps_read_def)
  qed
qed

lemma keeps_read_try_catch:
  assumes "keeps_read m" and "\<And>e. keeps_read (h e)"
  shows "keeps_read (try_catch m h)"
  unfolding keeps_read_def try_catch_def
proof (intro allI impI)
  fix s a s'
  assume run: "(case m s of (Inl e, s') \<Rightarrow> h e s' | (Inr x, s') \<Rightarrow> (Inr x, s')) = (a, s')"
    and used: "req_used s"
  obtain b s1 where m: "m s = (b, s1)" by (cases "m s")
  with assms(1) used have s1: "req_used s1"
    by (auto simp: keeps_read_def)
  show "req_used s'"
  proof (cases b)
    case (Inl e)
    with run m have "h e s1 = (a, s')" by simp
    with assms(2) [of e] s1 show ?thesis
      by (auto simp: keeps_read_def)
  next
    case (Inr x)
    with run m s1 show ?thesis by simp
  qed
qed

lemma keeps_read_update: "keeps_read (updateSourceStatus w sid status msg)"
  unfolding updateSourceStatus_def Let_def
  by (intro keeps_read_bind keeps_read_emit)
    (simp_all add: keeps_read_ret keeps_read_throw split: option.splits)

lemma keeps_read_fetch_post: "keeps_read (fetch_post w u h p)"
  unfolding fetch_post_def
  by (intro keeps_read_bind keeps_read_emit) (simp add: keeps_read_ret keeps_read_throw split: sum.splits)

lemma keeps_read_parse_text: "keeps_read (parse_text w t)"
  by (simp add: parse_text_def keeps_read_ret keeps_read_throw split: sum.splits)

lemma keeps_read_response_text: "keeps_read (response_text r)"
  by (auto simp: keeps_read_def response_text_def ret_def split: option.splits if_splits)

lemma keeps_read_response_json: "keeps_read (response_json w r)"
proof -
  have "req_used s'" if "parse_text w t (s\<lparr>up_used := True\<rparr>) = (a, s')" and "req_used s"
    for t s a s'
    using keeps_read_parse_text [of w t] that by (auto simp: keeps_read_def)
  then show ?thesis
    using keeps_read_parse_text [of w "[]"]
    by (auto simp: keeps_read_def response_json_def split: option.splits if_splits)
qed

lemma keeps_read_object_pattern: "keeps_read (object_pattern j)"
  by (simp add: object_pattern_def keeps_read_ret keeps_read_throw)

lemma keeps_read_classify: "keeps_read (classify_response w sid u r)"
  unfolding classify_response_def Let_def
  by (simp add: keeps_read_bind keeps_read_response_text keeps_read_response_json
      keeps_read_console_log keeps_read_console_error keeps_read_update keeps_read_ret)

lemma keeps_read_call_webhook: "keeps_read (call_webhook w sid fp st u auth)"
  unfolding call_webhook_def Let_def
  by (intro keeps_read_bind keeps_read_try_catch keeps_read_console_log keeps_read_console_error
      keeps_read_fetch_post keeps_read_update keeps_read_ret)
    (simp add: keeps_read_classify keeps_read_ret split: sum.splits)

text \<open>Whatever the try block does, it has read a body that is there.\<close>

lemma try_reads_body:
  assumes "process_document_try w req init_state = (a, s)" and "rq_body req = Some t"
  shows "req_used s"
proof -
  let ?rest = "\<lambda>parsed.
     bind_io (object_pattern parsed) (\<lambda>props.
     let sourceId = props ''sourceId'';
         filePath = props ''filePath'';
         sourceType = props ''sourceType''
     in
     if \<not> truthy sourceId \<or> \<not> truthy filePath \<or> \<not> truthy sourceType
     then ret required_fields_response
     else
     bind_io (console_log ''Processing document:'') (\<lambda>_.
     let webhookUrl = env w ''DOCUMENT_PROCESSING_WEBHOOK_URL'';
         authHeader = env w ''NOTEBOOK_GENERATION_AUTH''
     in
     if \<not> truthy_str webhookUrl
     then
       bind_io (console_error ''Missing DOCUMENT_PROCESSING_WEBHOOK_URL environment variable'') (\<lambda>_.
       let errorMessage = not_configured_message in
       bind_io (updateSourceStatus w sourceId ''failed'' (Some errorMessage)) (\<lambda>_.
       ret (json_response 500 (JObj [(''error'', JStr errorMessage)]))))
     else if \<not> isValidUrl w (env_string webhookUrl)
     then
       bind_io (console_error ''Invalid DOCUMENT_PROCESSING_WEBHOOK_URL format:'') (\<lambda>_.
       let errorMessage = invalid_format_message (env_string webhookUrl) in
       bind_io (updateSourceStatus w sourceId ''failed'' (Some errorMessage)) (\<lambda>_.
       ret (json_response 500 (JObj [(''error'', JStr errorMessage)]))))
     else call_webhook w sourceId filePath sourceType (env_string webhookUrl) authHeader))"
  have rest: "keeps_read (?rest parsed)" for parsed
    unfolding Let_def
    by (intro keeps_read_bind keeps_read_object_pattern)
      (simp add: keeps_read_bind keeps_read_console_log keeps_read_console_error keeps_read_update
        keeps_read_ret keeps_read_call_webhook)
  have d: "process_document_try w req = bind_io (req_json w req) ?rest"
    by (simp add: process_document_try_def)
  obtain b s1 where r: "req_json w req init_state = (b, s1)"
    by (cases "req_json w req init_state")
  have "parse_text w t (init_state\<lparr>req_used := True\<rparr>) = (b, s1)"
    using r assms(2) by (simp add: req_json_def init_state_def)
  with keeps_read_parse_text [of w t] have s1: "req_used s1"
    by (auto simp: keeps_read_def)
  show ?thesis
  proof (cases b)
    case (Inl e)
    with assms(1) r s1 show ?thesis by (simp add: d bind_io_def)
  next
    case (Inr parsed)
    with assms(1) r have "?rest parsed s1 = (a, s)" by (simp add: d bind_io_def)
    with rest [of parsed] s1 show ?thesis
      unfolding keeps_read_def by blast
  qed
qed

subsection \<open>The catch block of \<^verbatim>\<open>process-document\<close>\<close>

lemma catch_null_body:
  assumes "rq_body req = None"
  shows "process_document_catch w req e s =
     (Inr (json_response 500 (JObj [(''error'', JStr ''Internal server error''), (''details'', JStr (exn_message e))])),
      s\<lparr>trace := trace s @ [ConsoleError ''Error in process-document function:'',
          ConsoleError ''Could not parse request to update source status:'']\<rparr>)"
  using assms by (simp add: process_document_catch_def req_clone_json_def parse_text_def io_defs)

lemma catch_after_try:
  assumes "process_document_try w req init_state = (Inl e, s)"
  shows "process_document_catch w req e s =
     (Inr (json_response 500 (JObj
        [(''error'', JStr ''Internal server error''), (''details'', JStr (exn_message e))])),
      s\<lparr>trace := trace s @ [ConsoleError ''Error in process-document function:'',
          ConsoleError ''Could not parse request to update source status:'']\<rparr>)"
proof (cases "rq_body req")
  case None
  then show ?thesis by (rule catch_null_body)
next
  case (Some t)
  from try_reads_body [OF assms Some] have "req_used s" .
  with Some show ?thesis by (rule catch_after_read)
qed

subsection \<open>Messages\<close>






lemma details_props:
  "map_of (js_object
      [(''webhookUrl'', map_option JStr url), (''hasAuth'', Some (JBool b)),
       (''timestamp'', Some (JStr ts))]) ''webhookUrl'' = map_option JStr url"
  "map_of (js_object
      [(''webhookUrl'', map_option JStr url), (''hasAuth'', Some (JBool b)),
       (''timestamp'', Some (JStr ts))]) ''hasAuth'' = Some (JBool b)"
  "map_of (js_object
      [(''webhookUrl'', map_option JStr url), (''hasAuth'', Some (JBool b)),
       (''timestamp'', Some (JStr ts))]) ''timestamp'' = Some (JStr ts)"
  by (cases url; simp)+

lemma show_nat_1: "show_nat (Suc 0) = ''1''"
  by (simp add: show_nat.simps [of "Suc 0"] digit_char_def)

subsection \<open>The concrete inputs\<close>

lemma demo_doc_request_passes: "passes_field_check (demo_world r) doc_request doc_json"
  by (simp add: passes_field_check_def parses_to_def doc_request_def doc_json_def demo_world_def
      demo_parse_def)

lemma demo_doc_configured:
  "configured (demo_world r) ''DOCUMENT_PROCESSING_WEBHOOK_URL'' ''https://example.com/path''"
  by (simp add: configured_def demo_world_def demo_env_def isValidUrl_def demo_url_parse_def)

lemma demo_chat_request_accepted: "accepts_chat (demo_world r) chat_request chat_json"
  by (simp add: accepts_chat_def parses_to_def chat_request_def chat_json_def demo_world_def
      demo_parse_def)

lemma demo_chat_configured:
  "chat_configured (demo_world r) ''https://example.com/chat'' ''Bearer secret-token''"
  by (simp add: chat_configured_def configured_def demo_world_def demo_env_def isValidUrl_def
      demo_url_parse_def)

lemma demo_replies: "replies (demo_world r) r"
  by (simp add: replies_def demo_world_def)



section \<open>The required-field check of \<^verbatim>\<open>process-document\<close>\<close>

text \<open>
  C3. A request to \<^verbatim>\<open>process-document\<close> whose JSON body lacks \<^verbatim>\<open>sourceId\<close>,
  \<^verbatim>\<open>filePath\<close> or \<^verbatim>\<open>sourceType\<close> is answered with status 400 and the error
  message that names the three required fields; the trace of the invocation holds no
  outbound call and no status write.
\<close>

theorem missing_field_rejected:
  assumes "rq_method req \<noteq> ''OPTIONS''" and "parses_to w (rq_body req) j" and "j \<noteq> JNull"
    and "get_prop j ''sourceId'' = None \<or> get_prop j ''filePath'' = None
         \<or> get_prop j ''sourceType'' = None"
  shows "\<exists>r s. serve (process_document w) req = (Inr r, s) \<and> resp_status r = 400 \<and>
           resp_body r =
             BodyJson (JObj [(''error'', JStr ''sourceId, filePath, and sourceType are required'')]) \<and>
           length (fetch_calls (trace s)) = 0 \<and> status_writes (trace s) = []"
proof -
  from assms(4)
  have "\<not> truthy (get_prop j ''sourceId'') \<or> \<not> truthy (get_prop j ''filePath'')
        \<or> \<not> truthy (get_prop j ''sourceType'')"
    by auto
  from required_fields_path [OF assms(1-3) this]
  show ?thesis
    by (simp add: required_fields_response_def json_response_def init_state_def
        fetch_calls_def status_writes_def)
qed

text \<open>C3 at a request without \<^verbatim>\<open>sourceType\<close>.\<close>

theorem missing_field_rejected_witness:
  "\<exists>r s. serve (process_document (demo_world reply_ok)) doc_request_no_type = (Inr r, s) \<and>
         resp_status r = 400 \<and>
         resp_body r =
           BodyJson (JObj [(''error'', JStr ''sourceId, filePath, and sourceType are required'')]) \<and>
         length (fetch_calls (trace s)) = 0 \<and> status_writes (trace s) = []"
proof -
  let ?j = "JObj [(''sourceId'', JStr ''s1''), (''filePath'', JStr ''a.pdf'')]"
  have m: "rq_method doc_request_no_type \<noteq> ''OPTIONS''"
    by (simp add: doc_request_no_type_def)
  have p: "parses_to (demo_world reply_ok) (rq_body doc_request_no_type) ?j"
    by (simp add: parses_to_def doc_request_no_type_def demo_world_def demo_parse_def)
  have n: "?j \<noteq> JNull" by simp
  have a: "get_prop ?j ''sourceId'' = None \<or> get_prop ?j ''filePath'' = None
           \<or> get_prop ?j ''sourceType'' = None"
    by simp
  show ?thesis by (rule missing_field_rejected [OF m p n a])
qed

text \<open>
  C9. A field that is present and is the empty string fails the check as an absent
  one does: the invocation ends in the same response and the same state as that of a
  request that lacks a field, which is the 400 answer, with no outbound call and no
  status write.
\<close>

theorem empty_string_field_rejected:
  assumes "rq_method req \<noteq> ''OPTIONS''" and "parses_to w (rq_body req) j" and "j \<noteq> JNull"
    and "get_prop j ''sourceId'' = Some (JStr []) \<or> get_prop j ''filePath'' = Some (JStr [])
         \<or> get_prop j ''sourceType'' = Some (JStr [])"
    and "rq_method req' \<noteq> ''OPTIONS''" and "parses_to w (rq_body req') j'" and "j' \<noteq> JNull"
    and "get_prop j' ''sourceId'' = None \<or> get_prop j' ''filePath'' = None
         \<or> get_prop j' ''sourceType'' = None"
  shows "serve (process_document w) req = serve (process_document w) req' \<and>
         (\<exists>r s. serve (process_document w) req = (Inr r, s) \<and> resp_status r = 400 \<and>
            resp_body r =
              BodyJson (JObj [(''error'', JStr ''sourceId, filePath, and sourceType are required'')]) \<and>
            length (fetch_calls (trace s)) = 0 \<and> status_writes (trace s) = [])"
proof -
  from assms(4)
  have e: "\<not> truthy (get_prop j ''sourceId'') \<or> \<not> truthy (get_prop j ''filePath'')
        \<or> \<not> truthy (get_prop j ''sourceType'')"
    by auto
  from assms(8)
  have a: "\<not> truthy (get_prop j' ''sourceId'') \<or> \<not> truthy (get_prop j' ''filePath'')
        \<or> \<not> truthy (get_prop j' ''sourceType'')"
    by auto
  note r = required_fields_path [OF assms(1-3) e] and r' = required_fields_path [OF assms(5-7) a]
  have same: "serve (process_document w) req = serve (process_document w) req'"
    by (simp only: r r')
  have "\<exists>r s. serve (process_document w) req = (Inr r, s) \<and> resp_status r = 400 \<and>
            resp_body r =
              BodyJson (JObj [(''error'', JStr ''sourceId, filePath, and sourceType are required'')]) \<and>
            length (fetch_calls (trace s)) = 0 \<and> status_writes (trace s) = []"
    by (simp add: r required_fields_response_def json_response_def init_state_def
        fetch_calls_def status_writes_def)
  with same show ?thesis by (rule conjI)
qed

text \<open>C9 at a request whose \<^verbatim>\<open>filePath\<close> is the empty string.\<close>

theorem empty_string_field_rejected_witness:
  "serve (process_document (demo_world reply_ok)) doc_request_empty_path
     = serve (process_document (demo_world reply_ok)) doc_request_no_type \<and>
   (\<exists>r s. serve (process_document (demo_world reply_ok)) doc_request_empty_path = (Inr r, s) \<and>
      resp_status r = 400 \<and>
      resp_body r =
        BodyJson (JObj [(''error'', JStr ''sourceId, filePath, and sourceType are required'')]) \<and>
      length (fetch_calls (trace s)) = 0 \<and> status_writes (trace s) = [])"
proof -
  let ?e = "JObj [(''sourceId'', JStr ''s1''), (''filePath'', JStr []), (''sourceType'', JStr ''pdf'')]"
  let ?a = "JObj [(''sourceId'', JStr ''s1''), (''filePath'', JStr ''a.pdf'')]"
  have m: "rq_method doc_request_empty_path \<noteq> ''OPTIONS''"
    and m': "rq_method doc_request_no_type \<noteq> ''OPTIONS''"
    by (simp_all add: doc_request_empty_path_def doc_request_no_type_def)
  have p: "parses_to (demo_world reply_ok) (rq_body doc_request_empty_path) ?e"
    by (simp add: parses_to_def doc_request_empty_path_def demo_world_def demo_parse_def)
  have p': "parses_to (demo_world reply_ok) (rq_body doc_request_no_type) ?a"
    by (simp add: parses_to_def doc_request_no_type_def demo_world_def demo_parse_def)
  have n: "?e \<noteq> JNull" and n': "?a \<noteq> JNull" by simp_all
  have e: "get_prop ?e ''sourceId'' = Some (JStr []) \<or> get_prop ?e ''filePath'' = Some (JStr [])
           \<or> get_prop ?e ''sourceType'' = Some (JStr [])"
    by simp
  have a: "get_prop ?a ''sourceId'' = None \<or> get_prop ?a ''filePath'' = None
           \<or> get_prop ?a ''sourceType'' = None"
    by simp
  show ?thesis by (rule empty_string_field_rejected [OF m p n e m' p' n' a])
qed

section \<open>The preflight request\<close>

text \<open>
  C8, as stated, fails for \<^verbatim>\<open>process-document\<close>: its answer to OPTIONS has the
  body \<^verbatim>\<open>ok\<close>, which is not empty.
\<close>

theorem options_body_not_empty:
  "serve (process_document (demo_world reply_ok)) options_request =
     (Inr \<lparr>resp_status = 200, resp_headers = corsHeaders, resp_body = BodyText ''ok''\<rparr>, init_state)
   \<and> \<not> empty_body (BodyText ''ok'')"
  by (simp add: serve_def process_document_def options_request_def ret_def)

text \<open>
  C8, amended. For a request with method OPTIONS, \<^verbatim>\<open>process-document\<close> answers 200
  with the text \<^verbatim>\<open>ok\<close> and \<^verbatim>\<open>send-chat-message\<close> answers 200 with a null body,
  both with the CORS headers, which allow every origin. The invocation ends in the state
  it started in: no body was read, nothing was logged, called or written.
\<close>

theorem options_preflight:
  assumes "rq_method req = ''OPTIONS''"
  shows "serve (process_document w) req =
           (Inr \<lparr>resp_status = 200, resp_headers = corsHeaders, resp_body = BodyText ''ok''\<rparr>,
            init_state)
       \<and> serve (send_chat_message w) req =
           (Inr \<lparr>resp_status = 200, resp_headers = corsHeaders, resp_body = BodyNull\<rparr>, init_state)
       \<and> map_of corsHeaders ''Access-Control-Allow-Origin'' = Some ''*''
       \<and> trace init_state = [] \<and> \<not> req_used init_state"
  using assms
  by (simp add: serve_def process_document_def send_chat_message_def ret_def corsHeaders_def
      init_state_def)

text \<open>C8, amended, at an OPTIONS request.\<close>

theorem options_preflight_witness:
  "serve (process_document (demo_world reply_ok)) options_request =
           (Inr \<lparr>resp_status = 200, resp_headers = corsHeaders, resp_body = BodyText ''ok''\<rparr>,
            init_state)
       \<and> serve (send_chat_message (demo_world reply_ok)) options_request =
           (Inr \<lparr>resp_status = 200, resp_headers = corsHeaders, resp_body = BodyNull\<rparr>, init_state)
       \<and> map_of corsHeaders ''Access-Control-Allow-Origin'' = Some ''*''
       \<and> trace init_state = [] \<and> \<not> req_used init_state"
proof -
  have m: "rq_method options_request = ''OPTIONS''"
    by (simp add: options_request_def)
  show ?thesis by (rule options_preflight [OF m])
qed

section \<open>A missing webhook URL\<close>



section \<open>An outbound call that is answered with an error status\<close>



section \<open>An outbound call that succeeds\<close>

text \<open>
  C7. The outbound call is answered with a status from 200 to 299 and a body that is
  the JSON text of \<open>result\<close>. A request that passes the field check of
  \<^verbatim>\<open>process-document\<close>, with the webhook URL configured, is answered with status 200
  and the body \<^verbatim>\<open>{success: true, message: "Document processing initiated", result}\<close>,
  and the trace holds no status write. A request that \<^verbatim>\<open>send-chat-message\<close> accepts,
  with its configuration in place, is answered with status 200 and the body
  \<^verbatim>\<open>{success: true, data: result}\<close>.
\<close>

theorem success_relayed:
  assumes "replies w r" and "ok r" and "parses_to w (up_body r) result"
  shows "(passes_field_check w req j \<and> configured w ''DOCUMENT_PROCESSING_WEBHOOK_URL'' u \<longrightarrow>
          (\<exists>resp s. serve (process_document w) req = (Inr resp, s) \<and> resp_status resp = 200 \<and>
             resp_body resp = BodyJson (JObj
               [(''success'', JBool True),
                (''message'', JStr ''Document processing initiated''),
                (''result'', result)]) \<and>
             status_writes (trace s) = []))
       \<and> (accepts_chat w req' j' \<and> chat_configured w u' auth \<longrightarrow>
          (\<exists>resp s. serve (send_chat_message w) req' = (Inr resp, s) \<and> resp_status resp = 200 \<and>
             resp_body resp = BodyJson (JObj [(''success'', JBool True), (''data'', result)])))"
proof (intro conjI impI)
  assume a: "passes_field_check w req j \<and> configured w ''DOCUMENT_PROCESSING_WEBHOOK_URL'' u"
  from doc_ok_path [OF conjunct1 [OF a] conjunct2 [OF a] assms]
  show "\<exists>resp s. serve (process_document w) req = (Inr resp, s) \<and> resp_status resp = 200 \<and>
             resp_body resp = BodyJson (JObj
               [(''success'', JBool True),
                (''message'', JStr ''Document processing initiated''),
                (''result'', result)]) \<and>
             status_writes (trace s) = []"
    by (auto simp: json_response_def)
next
  assume b: "accepts_chat w req' j' \<and> chat_configured w u' auth"
  from chat_ok_path [OF conjunct1 [OF b] conjunct2 [OF b] assms]
  show "\<exists>resp s. serve (send_chat_message w) req' = (Inr resp, s) \<and> resp_status resp = 200 \<and>
             resp_body resp = BodyJson (JObj [(''success'', JBool True), (''data'', result)])"
    by (auto simp: json_response_def)
qed

text \<open>C7 at the answer 200 with the body \<^verbatim>\<open>{"ok":true}\<close>.\<close>

theorem success_relayed_witness:
  "(\<exists>resp s. serve (process_document (demo_world reply_ok)) doc_request = (Inr resp, s) \<and>
      resp_status resp = 200 \<and>
      resp_body resp = BodyJson (JObj
        [(''success'', JBool True),
         (''message'', JStr ''Document processing initiated''),
         (''result'', JObj [(''ok'', JBool True)])]) \<and>
      status_writes (trace s) = [])
   \<and> (\<exists>resp s. serve (send_chat_message (demo_world reply_ok)) chat_request = (Inr resp, s) \<and>
      resp_status resp = 200 \<and>
      resp_body resp = BodyJson (JObj
        [(''success'', JBool True), (''data'', JObj [(''ok'', JBool True)])]))"
proof -
  have k: "ok reply_ok"
    by (simp add: ok_def reply_ok_def)
  have p: "parses_to (demo_world reply_ok) (up_body reply_ok) (JObj [(''ok'', JBool True)])"
    by (simp add: parses_to_def reply_ok_def demo_world_def demo_parse_def)
  from success_relayed [OF demo_replies k p, of doc_request doc_json
      "''https://example.com/path''" chat_request chat_json "''https://example.com/chat''"
      "''Bearer secret-token''"]
    demo_doc_request_passes [of reply_ok] demo_doc_configured [of reply_ok]
    demo_chat_request_accepted [of reply_ok] demo_chat_configured [of reply_ok]
  show ?thesis
    by (simp only: simp_thms)
qed

section \<open>The error answers of \<^verbatim>\<open>send-chat-message\<close>\<close>

text \<open>
  C10. An answer of \<^verbatim>\<open>send-chat-message\<close> whose status is not 200 has status 500 and
  a body with an \<^verbatim>\<open>error\<close> message and a \<^verbatim>\<open>details\<close> object. In
  \<^verbatim>\<open>details\<close>, \<^verbatim>\<open>webhookUrl\<close> is the value of \<^verbatim>\<open>NOTEBOOK_CHAT_URL\<close> itself, the
  whole string (the property is left out when the variable is unset, as
  \<^verbatim>\<open>JSON.stringify\<close> does with \<^verbatim>\<open>undefined\<close>); \<^verbatim>\<open>hasAuth\<close> is the
  truthiness of \<^verbatim>\<open>NOTEBOOK_GENERATION_AUTH\<close>, false when it is unset or empty; and
  \<^verbatim>\<open>timestamp\<close> is the last reading of the clock in the invocation.
\<close>

theorem chat_error_details:
  assumes "serve (send_chat_message w) req = (Inr resp, s)" and "resp_status resp \<noteq> 200"
  shows "\<exists>msg details. resp_status resp = 500 \<and>
           resp_body resp = BodyJson (JObj [(''error'', JStr msg), (''details'', details)]) \<and>
           get_prop details ''webhookUrl'' = map_option JStr (env w ''NOTEBOOK_CHAT_URL'') \<and>
           get_prop details ''hasAuth''
             = Some (JBool (truthy_str (env w ''NOTEBOOK_GENERATION_AUTH''))) \<and>
           0 < ticks s \<and>
           get_prop details ''timestamp'' = Some (JStr (clock w (ticks s - 1)))"
proof (cases "rq_method req = ''OPTIONS''")
  case True
  with assms show ?thesis
    by (auto simp: serve_def send_chat_message_def ret_def)
next
  case False
  show ?thesis
  proof (cases "send_chat_message_try w req init_state")
    case (Pair a s1)
    show ?thesis
    proof (cases a)
      case (Inl e)
      with Pair assms(1) have r: "resp = json_response 500 (JObj
          [(''error'', JStr (if exn_message e = [] then ''Failed to send message to webhook''
                             else exn_message e)),
           (''details'', JObj (js_object
              [(''webhookUrl'', map_option JStr (env w ''NOTEBOOK_CHAT_URL'')),
               (''hasAuth'', Some (JBool (truthy_str (env w ''NOTEBOOK_GENERATION_AUTH'')))),
               (''timestamp'', Some (JStr (clock w (ticks s1))))]))])"
        and s: "s = s1\<lparr>trace := trace s1 @ [ConsoleError ''Error in send-chat-message:''],
                       ticks := ticks s1 + 1\<rparr>"
        by (simp_all add: serve_send_chat_message [OF False] chat_catch_apply)
      show ?thesis
        by (simp add: r s json_response_def details_props)
    next
      case (Inr resp')
      with Pair assms(1) have "resp' = resp"
        by (simp add: serve_send_chat_message [OF False])
      with Pair Inr chat_try_status [of w req init_state resp s1] assms(2)
      show ?thesis by simp
    qed
  qed
qed

text \<open>C10 at an outbound call that is answered 503.\<close>

theorem chat_error_details_witness:
  "\<exists>resp s msg details.
     serve (send_chat_message (demo_world reply_503)) chat_request = (Inr resp, s) \<and>
     resp_status resp = 500 \<and>
     resp_body resp = BodyJson (JObj [(''error'', JStr msg), (''details'', details)]) \<and>
     get_prop details ''webhookUrl'' = Some (JStr ''https://example.com/chat'') \<and>
     get_prop details ''hasAuth'' = Some (JBool True) \<and>
     0 < ticks s \<and>
     get_prop details ''timestamp'' = Some (JStr (demo_clock (ticks s - 1)))"
proof -
  have n: "\<not> ok reply_503"
    by (simp add: ok_def reply_503_def)
  from chat_not_ok_path [OF demo_chat_request_accepted demo_chat_configured demo_replies n]
  obtain resp s where run: "serve (send_chat_message (demo_world reply_503)) chat_request = (Inr resp, s)"
    and st: "resp_status resp \<noteq> 200"
    by (auto simp: json_response_def)
  have e: "env (demo_world reply_503) ''NOTEBOOK_CHAT_URL'' = Some ''https://example.com/chat''"
    "truthy_str (env (demo_world reply_503) ''NOTEBOOK_GENERATION_AUTH'')"
    "clock (demo_world reply_503) = demo_clock"
    by (simp_all add: demo_world_def demo_env_def truthy_str_def)
  from chat_error_details [OF run st] run
  show ?thesis
    by (simp only: e option.map simp_thms) blast
qed

section \<open>Where the code leaves its specification\<close>

text \<open>
  C1 fails on the code. The outbound call of \<^verbatim>\<open>send-chat-message\<close> is answered 200
  with the body \<^verbatim>\<open>done\<close>, which is not JSON. \<^verbatim>\<open>webhookResponse.json()\<close> has read
  the body when it throws, so \<^verbatim>\<open>webhookResponse.text()\<close> in the fallback throws a
  \<^verbatim>\<open>TypeError\<close>, and the catch block of the handler answers 500 with that error and
  not with the fallback object. (The fallback is reached for a null body only, see
  \<open>relay_ok_null_body\<close>.)
\<close>

theorem non_json_reply_fails:
  "fst (serve (send_chat_message (demo_world reply_done)) chat_request) =
     Inr (json_response 500 (JObj
       [(''error'', JStr ''Body already consumed.''),
        (''details'', JObj
           [(''webhookUrl'', JStr ''https://example.com/chat''),
            (''hasAuth'', JBool True),
            (''timestamp'', JStr ''2024-01-01T00:00:01.000Z'')])]))"
proof -
  have k: "ok reply_done"
    by (simp add: ok_def reply_done_def)
  have b: "up_body reply_done = Some ''done''"
    by (simp add: reply_done_def)
  have p: "''done'' = [] \<or> (\<exists>m. json_parse (demo_world reply_done) ''done'' = Inl m)"
    by (simp add: demo_world_def demo_parse_def)
  have c: "clock (demo_world reply_done) (Suc 0) = ''2024-01-01T00:00:01.000Z''"
    by (simp add: demo_world_def demo_clock_def show_nat_1)
  from chat_not_json_path [OF demo_chat_request_accepted demo_chat_configured demo_replies k b p]
  show ?thesis
    by (auto simp: c body_used_message_def)
qed

text \<open>
  C5 fails on the code. In an environment without \<^verbatim>\<open>SUPABASE_URL\<close> and without the
  webhook URL, the store client throws when \<^verbatim>\<open>updateSourceStatus\<close> creates it. The
  awaited write of the missing-URL branch is inside the handler's \<^verbatim>\<open>try\<close>, so the
  exception reaches the catch block, and the caller gets the generic answer with the
  store's message, where the same request gets the configuration error when the write
  returns.
\<close>

theorem failed_write_replaces_answer:
  "fst (serve (process_document
          (demo_world reply_ok\<lparr>env := empty_env, create_client := strict_client\<rparr>)) doc_request)
     = Inr (json_response 500 (JObj
         [(''error'', JStr ''Internal server error''),
          (''details'', JStr ''supabaseUrl is required.'')]))
   \<and> fst (serve (process_document (demo_world reply_ok\<lparr>env := empty_env\<rparr>)) doc_request)
     = Inr (json_response 500 (JObj [(''error'', JStr not_configured_message)]))"
proof -
  let ?down = "demo_world reply_ok\<lparr>env := empty_env, create_client := strict_client\<rparr>"
  let ?up = "demo_world reply_ok\<lparr>env := empty_env\<rparr>"
  have p: "passes_field_check ?down doc_request doc_json" "passes_field_check ?up doc_request doc_json"
    by (simp_all add: passes_field_check_def parses_to_def doc_request_def doc_json_def
        demo_world_def demo_parse_def)
  have u: "\<not> truthy_str (env ?down ''DOCUMENT_PROCESSING_WEBHOOK_URL'')"
    "\<not> truthy_str (env ?up ''DOCUMENT_PROCESSING_WEBHOOK_URL'')"
    by (simp_all add: truthy_str_def empty_env_def)
  have d: "write_outcome ?down (get_prop doc_json ''sourceId'') not_configured_message
             = Some (Error ''supabaseUrl is required.'')"
    by (simp add: write_outcome_def client_outcome_def strict_client_def env_or_empty_def
        empty_env_def)
  have s: "write_outcome ?up (get_prop doc_json ''sourceId'') not_configured_message = None"
    by (simp add: write_outcome_def client_outcome_def store_outcome_def demo_world_def)
  from doc_unset_path [OF p(1) u(1)] doc_unset_path [OF p(2) u(2)]
  show ?thesis
    by (auto simp: answer_after_write_def d s)
qed

section \<open>The handler boundary\<close>

text \<open>
  When the try block of \<^verbatim>\<open>process-document\<close> throws, the catch block logs the
  error, fails to recover the source (a body that was read cannot be cloned, and a null
  body is not JSON), logs that, and gives the generic answer with status 500: its
  recovery step never issues a status write.
\<close>

theorem recovery_never_writes:
  assumes "process_document_try w req init_state = (Inl e, s)"
  shows "process_document_catch w req e s =
     (Inr (json_response 500 (JObj
        [(''error'', JStr ''Internal server error''), (''details'', JStr (exn_message e))])),
      s\<lparr>trace := trace s @ [ConsoleError ''Error in process-document function:'',
          ConsoleError ''Could not parse request to update source status:'']\<rparr>)"
  using assms by (rule catch_after_try)

text \<open>The same at a request whose body is not JSON.\<close>

theorem recovery_never_writes_witness:
  "process_document_catch (demo_world reply_ok) bad_request (SyntaxError ''Unexpected token in JSON'')
     (init_state\<lparr>req_used := True\<rparr>) =
     (Inr (json_response 500 (JObj
        [(''error'', JStr ''Internal server error''),
         (''details'', JStr ''Unexpected token in JSON'')])),
      init_state\<lparr>req_used := True,
        trace := [ConsoleError ''Error in process-document function:'',
          ConsoleError ''Could not parse request to update source status:'']\<rparr>)"
proof -
  have t: "process_document_try (demo_world reply_ok) bad_request init_state =
      (Inl (SyntaxError ''Unexpected token in JSON''), init_state\<lparr>req_used := True\<rparr>)"
    by (simp add: process_document_try_def req_json_def parse_text_def bad_request_def
        demo_world_def demo_parse_def io_defs init_state_def)
  from recovery_never_writes [OF t] show ?thesis
    by (simp add: init_state_def)
qed

text \<open>
  No exception leaves a handler: every invocation of \<^verbatim>\<open>process-document\<close> and
  of \<^verbatim>\<open>send-chat-message\<close> ends in a response.
\<close>

theorem handlers_always_answer:
  "(\<exists>resp s. serve (process_document w) req = (Inr resp, s)) \<and>
   (\<exists>resp s. serve (send_chat_message w) req = (Inr resp, s))"
proof
  show "\<exists>resp s. serve (process_document w) req = (Inr resp, s)"
  proof (cases "rq_method req = ''OPTIONS''")
    case True
    then show ?thesis by (simp add: serve_def process_document_def ret_def)
  next
    case False
    show ?thesis
    proof (cases "process_document_try w req init_state")
      case (Pair a s1)
      show ?thesis
      proof (cases a)
        case (Inl e)
        with Pair catch_after_try [of w req e s1] show ?thesis
          by (simp add: serve_process_document [OF False])
      next
        case (Inr resp)
        with Pair show ?thesis
          by (simp add: serve_process_document [OF False])
      qed
    qed
  qed
  show "\<exists>resp s. serve (send_chat_message w) req = (Inr resp, s)"
    by (rule chat_total)
qed

end
